theory Spec2Isabelle
  imports Main "HOL-Library.AList" "HOL-Library.Countable"
begin

section \<open>Data model of the observability store\<close>

text \<open>
  JavaScript values held in the \<open>any\<close>/\<open>unknown\<close>-typed columns of a span
  (\<open>error\<close>, \<open>input\<close>, \<open>output\<close>, \<open>links\<close> and the values of the
  \<open>metadata\<close>, \<open>scope\<close>, \<open>versionInfo\<close> and \<open>attributes\<close> maps).
  Primitives carry their value; an object or array is a reference, so that the strict
  comparison \<open>!==\<close> of the source is equality of this datatype: primitives compare by
  value and objects by identity. Numbers in these columns are integers (no NaN, no
  fractions).
\<close>

datatype jsval = JUndefined | JNull | JBool bool | JNum int | JStr string | JRef nat

text \<open>The truthiness test that \<open>cond ? a : b\<close> and \<open>if (cond)\<close> apply to a value.\<close>

fun truthy :: "jsval \<Rightarrow> bool" where
  "truthy JUndefined = False"
| "truthy JNull = False"
| "truthy (JBool b) = b"
| "truthy (JNum n) = (n \<noteq> 0)"
| "truthy (JStr s) = (s \<noteq> [])"
| "truthy (JRef r) = True"

text \<open>
  A column declared \<open>T | null\<close> holds a value or \<open>null\<close>; a stored record can also
  hold \<open>undefined\<close> there, once \<open>updateSpan\<close> has spread an update whose key is
  present with the value \<open>undefined\<close> (which \<open>Partial<UpdateSpanRecord>\<close> admits). The
  three cases are kept apart, because the source compares with \<open>=== null\<close>.
\<close>

datatype 'a nullable = Undefined | Null | Value 'a

text \<open>A value that may be \<open>undefined\<close> (\<open>None\<close>), read where a nullable one is expected.\<close>

fun definedAs :: "'a option \<Rightarrow> 'a nullable" where
  "definedAs None = Undefined"
| "definedAs (Some v) = Value v"

datatype SpanEntityType = agent | workflow | tool | network | step

datatype SpanStatus = status_success | status_error | status_running

text \<open>
  A \<open>Record<string, any>\<close> is an association list (keys in insertion order), read with
  \<open>map_of\<close>. A \<open>Date\<close> is its time value in milliseconds, an \<open>int\<close>. The span type is
  the string value of the \<open>SpanType\<close> enum member. The columns declared without
  \<open>null\<close> that an update can reach (\<open>name\<close>, \<open>spanType\<close>, \<open>startedAt\<close>,
  \<open>isEvent\<close>) are options, \<open>None\<close> being a stored \<open>undefined\<close>; the columns typed
  \<open>any\<close> are \<open>jsval\<close>s, which have \<open>JUndefined\<close>.
\<close>

type_synonym jsobject = "(string \<times> jsval) list"

record CreateSpanRecord =
  traceId :: string
  spanId :: string
  parentSpanId :: "string nullable"
  name :: "string option"
  scope :: "jsobject nullable"
  spanType :: "string option"
  entityType :: "SpanEntityType nullable"
  entityId :: "string nullable"
  entityName :: "string nullable"
  userId :: "string nullable"
  organizationId :: "string nullable"
  resourceId :: "string nullable"
  runId :: "string nullable"
  sessionId :: "string nullable"
  threadId :: "string nullable"
  requestId :: "string nullable"
  environment :: "string nullable"
  source :: "string nullable"
  serviceName :: "string nullable"
  deploymentId :: "string nullable"
  versionInfo :: "jsobject nullable"
  attributes :: "jsobject nullable"
  metadata :: "jsobject nullable"
  tags :: "string list nullable"
  links :: jsval
  input :: jsval
  span_output :: jsval
  error :: jsval
  startedAt :: "int option"
  endedAt :: "int nullable"
  isEvent :: "bool option"

record SpanRecord = CreateSpanRecord +
  createdAt :: int
  updatedAt :: "int option"

text \<open>
  The \<open>filters\<close> and \<open>pagination\<close> arguments of \<open>getTracesPaginated\<close>
  (\<open>TracesPaginatedArg\<close>). Every field is optional: \<open>None\<close> is an absent
  (\<open>undefined\<close>) field. The field names carry the prefix \<open>flt_\<close> to keep them apart
  from the span's columns of the same name.
\<close>

record TracesFilter =
  flt_spanType :: "string option"
  flt_entityType :: "SpanEntityType option"
  flt_entityId :: "string option"
  flt_entityName :: "string option"
  flt_status :: "SpanStatus option"
  flt_tags :: "string list option"
  flt_userId :: "string option"
  flt_organizationId :: "string option"
  flt_resourceId :: "string option"
  flt_runId :: "string option"
  flt_sessionId :: "string option"
  flt_threadId :: "string option"
  flt_requestId :: "string option"
  flt_environment :: "string option"
  flt_source :: "string option"
  flt_serviceName :: "string option"
  flt_deploymentId :: "string option"
  flt_metadata :: "jsobject option"
  flt_scope :: "jsobject option"
  flt_versionInfo :: "jsobject option"

record DateRange =
  range_start :: "int option"
  range_end :: "int option"

text \<open>
  \<open>page\<close> and \<open>perPage\<close> are JavaScript numbers. A finite number is a rational
  (NaN and the infinities are left out). The product and the sum computed from them
  are exact here; in the source they are exact for integers below \<open>2^53\<close> and for
  the binary fractions used below (such as \<open>0.5\<close>), and rounded otherwise. \<open>total\<close>
  is the length of an array.
\<close>

record PaginationArgs =
  dateRange :: "DateRange option"
  page :: "rat option"
  perPage :: "rat option"

record PaginationInfo =
  total :: int
  info_page :: rat
  info_perPage :: rat
  hasMore :: bool

record TracesPage =
  pagination :: PaginationInfo
  spans :: "SpanRecord list"

text \<open>
  The errors the store throws, by their \<open>id\<close>.
\<close>

datatype MastraError =
    OBSERVABILITY_SPAN_ID_REQUIRED
  | OBSERVABILITY_TRACE_ID_REQUIRED
  | OBSERVABILITY_UPDATE_SPAN_NOT_FOUND

text \<open>
  The collection is a JavaScript \<open>Map<string, SpanRecord>\<close>: an association list in
  insertion order with one entry per key. \<open>Map.set\<close> is \<open>AList.update\<close> (an existing key
  keeps its place, a new key goes to the end), \<open>Map.get\<close> is \<open>map_of\<close>,
  \<open>Map.delete\<close> is \<open>AList.delete\<close> and \<open>Map.values\<close> is \<open>map snd\<close>.
\<close>

type_synonym InMemoryObservability = "(string \<times> SpanRecord) list"

section \<open>The in-memory store\<close>

text \<open>\<open>generateId\<close>: the template string \<open>`${traceId}-${spanId}`\<close>.\<close>

definition generateId :: "string \<Rightarrow> string \<Rightarrow> string" where
  "generateId tid sid = tid @ ''-'' @ sid"

text \<open>
  \<open>validateCreateSpan\<close> throws on a falsy id. The ids are strings, and the only falsy
  string is the empty one. The result is the error thrown, if any; the check of
  \<open>spanId\<close> comes first.
\<close>

definition validateCreateSpan :: "CreateSpanRecord \<Rightarrow> MastraError option" where
  "validateCreateSpan record =
     (if spanId record = [] then Some OBSERVABILITY_SPAN_ID_REQUIRED
      else if traceId record = [] then Some OBSERVABILITY_TRACE_ID_REQUIRED
      else None)"

text \<open>
  \<open>createSpan\<close>. The first argument is the value of \<open>new Date()\<close> at the call. The
  result is the error thrown (if any) and the collection after the call.
\<close>

definition createSpan ::
  "int \<Rightarrow> CreateSpanRecord \<Rightarrow> InMemoryObservability \<Rightarrow> MastraError option \<times> InMemoryObservability" where
  "createSpan now span c =
     (case validateCreateSpan span of
        Some e \<Rightarrow> (Some e, c)
      | None \<Rightarrow>
          (let id = generateId (traceId span) (spanId span);
               record = CreateSpanRecord.extend span (SpanRecord.fields now (Some now))
           in (None, AList.update id record c)))"

text \<open>
  \<open>batchCreateSpans\<close> awaits \<open>createSpan\<close> on each record in turn; the first throw
  ends the loop and leaves the records written before it in place. Each record comes
  with the clock value its \<open>createSpan\<close> reads.
\<close>

fun batchCreateSpans ::
  "(int \<times> CreateSpanRecord) list \<Rightarrow> InMemoryObservability \<Rightarrow> MastraError option \<times> InMemoryObservability" where
  "batchCreateSpans [] c = (None, c)"
| "batchCreateSpans ((now, record) # records) c =
     (case createSpan now record c of
        (Some e, c') \<Rightarrow> (Some e, c')
      | (None, c') \<Rightarrow> batchCreateSpans records c')"

text \<open>
  The \<open>updates\<close> of \<open>updateSpan\<close> are a \<open>Partial<UpdateSpanRecord>\<close>: every column
  but \<open>traceId\<close>, \<open>spanId\<close>, \<open>createdAt\<close> and \<open>updatedAt\<close>, each optional
  (\<open>None\<close>: the key is absent from the object). A key that is present carries a
  value of the column, which may be \<open>undefined\<close>. The spread
  \<open>{ ...span, ...updates }\<close> takes a column from \<open>updates\<close> where the key is present,
  whatever its value.
\<close>

record SpanUpdates =
  upd_parentSpanId :: "(string nullable) option"
  upd_name :: "(string option) option"
  upd_scope :: "(jsobject nullable) option"
  upd_spanType :: "(string option) option"
  upd_entityType :: "(SpanEntityType nullable) option"
  upd_entityId :: "(string nullable) option"
  upd_entityName :: "(string nullable) option"
  upd_userId :: "(string nullable) option"
  upd_organizationId :: "(string nullable) option"
  upd_resourceId :: "(string nullable) option"
  upd_runId :: "(string nullable) option"
  upd_sessionId :: "(string nullable) option"
  upd_threadId :: "(string nullable) option"
  upd_requestId :: "(string nullable) option"
  upd_environment :: "(string nullable) option"
  upd_source :: "(string nullable) option"
  upd_serviceName :: "(string nullable) option"
  upd_deploymentId :: "(string nullable) option"
  upd_versionInfo :: "(jsobject nullable) option"
  upd_attributes :: "(jsobject nullable) option"
  upd_metadata :: "(jsobject nullable) option"
  upd_tags :: "(string list nullable) option"
  upd_links :: "(jsval) option"
  upd_input :: "(jsval) option"
  upd_span_output :: "(jsval) option"
  upd_error :: "(jsval) option"
  upd_startedAt :: "(int option) option"
  upd_endedAt :: "(int nullable) option"
  upd_isEvent :: "(bool option) option"

definition spread :: "'a \<Rightarrow> 'a option \<Rightarrow> 'a" where
  "spread old new = (case new of None \<Rightarrow> old | Some v \<Rightarrow> v)"

definition mergeUpdates :: "SpanRecord \<Rightarrow> SpanUpdates \<Rightarrow> SpanRecord" where
  "mergeUpdates span updates =
     span\<lparr>
       parentSpanId := spread (parentSpanId span) (upd_parentSpanId updates),
       name := spread (name span) (upd_name updates),
       scope := spread (scope span) (upd_scope updates),
       spanType := spread (spanType span) (upd_spanType updates),
       entityType := spread (entityType span) (upd_entityType updates),
       entityId := spread (entityId span) (upd_entityId updates),
       entityName := spread (entityName span) (upd_entityName updates),
       userId := spread (userId span) (upd_userId updates),
       organizationId := spread (organizationId span) (upd_organizationId updates),
       resourceId := spread (resourceId span) (upd_resourceId updates),
       runId := spread (runId span) (upd_runId updates),
       sessionId := spread (sessionId span) (upd_sessionId updates),
       threadId := spread (threadId span) (upd_threadId updates),
       requestId := spread (requestId span) (upd_requestId updates),
       environment := spread (environment span) (upd_environment updates),
       source := spread (source span) (upd_source updates),
       serviceName := spread (serviceName span) (upd_serviceName updates),
       deploymentId := spread (deploymentId span) (upd_deploymentId updates),
       versionInfo := spread (versionInfo span) (upd_versionInfo updates),
       attributes := spread (attributes span) (upd_attributes updates),
       metadata := spread (metadata span) (upd_metadata updates),
       tags := spread (tags span) (upd_tags updates),
       links := spread (links span) (upd_links updates),
       input := spread (input span) (upd_input updates),
       span_output := spread (span_output span) (upd_span_output updates),
       error := spread (error span) (upd_error updates),
       startedAt := spread (startedAt span) (upd_startedAt updates),
       endedAt := spread (endedAt span) (upd_endedAt updates),
       isEvent := spread (isEvent span) (upd_isEvent updates)\<rparr>"

text \<open>
  \<open>updateSpan\<close>: looks the id up, throws when nothing is stored under it, and otherwise
  stores \<open>{ ...span, ...updates, updatedAt: new Date() }\<close> under the same id.
\<close>

definition updateSpan ::
  "int \<Rightarrow> string \<Rightarrow> string \<Rightarrow> SpanUpdates \<Rightarrow> InMemoryObservability
     \<Rightarrow> MastraError option \<times> InMemoryObservability" where
  "updateSpan now tid sid updates c =
     (let id = generateId tid sid in
      case map_of c id of
        None \<Rightarrow> (Some OBSERVABILITY_UPDATE_SPAN_NOT_FOUND, c)
      | Some span \<Rightarrow>
          (None, AList.update id ((mergeUpdates span updates)\<lparr>updatedAt := Some now\<rparr>) c))"

text \<open>
  \<open>batchDeleteTraces\<close>: for each trace id, the spans of that trace are collected from
  the values and the entry under each span's generated id is deleted.
\<close>

definition deleteTrace :: "string \<Rightarrow> InMemoryObservability \<Rightarrow> InMemoryObservability" where
  "deleteTrace tid c =
     fold (\<lambda>span acc. AList.delete (generateId (traceId span) (spanId span)) acc)
          (filter (\<lambda>span. traceId span = tid) (map snd c)) c"

definition batchDeleteTraces :: "string list \<Rightarrow> InMemoryObservability \<Rightarrow> InMemoryObservability" where
  "batchDeleteTraces traceIds c = fold deleteTrace traceIds c"

section \<open>Filtered, paginated listing of root spans\<close>

definition filterForRootSpans :: "SpanRecord list \<Rightarrow> SpanRecord list" where
  "filterForRootSpans ss = filter (\<lambda>span. parentSpanId span = Null) ss"

text \<open>
  \<open>filterSpansByDate\<close>: a \<open>Date\<close> bound is truthy whenever it is given, and two dates
  compare by their time values; a comparison with \<open>undefined\<close> is false.
\<close>

definition dateBefore :: "int option \<Rightarrow> int \<Rightarrow> bool" where
  "dateBefore t d = (case t of None \<Rightarrow> False | Some v \<Rightarrow> v < d)"

definition dateAfter :: "int option \<Rightarrow> int \<Rightarrow> bool" where
  "dateAfter t d = (case t of None \<Rightarrow> False | Some v \<Rightarrow> v > d)"

definition filterSpansByDate :: "SpanRecord list \<Rightarrow> int option \<Rightarrow> int option \<Rightarrow> SpanRecord list" where
  "filterSpansByDate ss startDate endDate =
     filter (\<lambda>span.
        if (case startDate of None \<Rightarrow> False | Some d \<Rightarrow> dateBefore (startedAt span) d) then False
        else if (case endDate of None \<Rightarrow> False | Some d \<Rightarrow> dateAfter (startedAt span) d) then False
        else True) ss"

text \<open>
  The tests of \<open>filterSpansByFilter\<close>, one definition per shape of line. Each says when
  the line returns \<open>false\<close>.

  \<open>filter?.x && span.x !== filter.x\<close> for a string-valued filter: an absent or empty
  filter string is falsy and the test is skipped.
\<close>

definition stringMismatch :: "string option \<Rightarrow> string nullable \<Rightarrow> bool" where
  "stringMismatch wanted actual =
     (case wanted of None \<Rightarrow> False | Some v \<Rightarrow> v \<noteq> [] \<and> actual \<noteq> Value v)"

text \<open>The same line for \<open>entityType\<close>, whose enum values are all non-empty strings.\<close>

definition entityTypeMismatch :: "SpanEntityType option \<Rightarrow> SpanEntityType nullable \<Rightarrow> bool" where
  "entityTypeMismatch wanted actual =
     (case wanted of None \<Rightarrow> False | Some v \<Rightarrow> actual \<noteq> Value v)"

text \<open>
  The status line:
  \<^verbatim>\<open>const derivedStatus = span.error ? 'error' : span.endedAt === null ? 'running' : 'success';\<close>
  The comparison \<open>=== null\<close> is strict: a stored \<open>undefined\<close> is not \<open>null\<close>.
\<close>

definition statusMismatch :: "SpanStatus option \<Rightarrow> SpanRecord \<Rightarrow> bool" where
  "statusMismatch wanted span =
     (case wanted of
        None \<Rightarrow> False
      | Some st \<Rightarrow>
          (let derivedStatus =
                 (if truthy (error span) then status_error
                  else if endedAt span = Null then status_running
                  else status_success)
           in derivedStatus \<noteq> st))"

text \<open>
  The helper \<open>getSpanStatus\<close> exported beside the record types:
  \<^verbatim>\<open>if (span.error) return 'error';
if (span.endedAt === null) return 'running';
return 'success';\<close>
\<close>

definition getSpanStatus :: "jsval \<Rightarrow> int nullable \<Rightarrow> SpanStatus" where
  "getSpanStatus err ended =
     (if truthy err then status_error
      else if ended = Null then status_running
      else status_success)"

text \<open>
  The tag lines:
  \<^verbatim>\<open>if (filter?.tags && filter.tags.length > 0) {
    if (!span.tags || !filter.tags.some(tag => span.tags?.includes(tag))) return false; }\<close>
  An array is truthy, \<open>null\<close> and \<open>undefined\<close> are not.
\<close>

definition tagsMismatch :: "string list option \<Rightarrow> string list nullable \<Rightarrow> bool" where
  "tagsMismatch wanted actual =
     (case wanted of
        None \<Rightarrow> False
      | Some ts \<Rightarrow>
          length ts > 0 \<and>
          (case actual of
             Value have \<Rightarrow> \<not> list_ex (\<lambda>tag. tag \<in> set have) ts
           | _ \<Rightarrow> True))"

text \<open>
  A plain object inherits the properties of \<open>Object.prototype\<close>. Reading one of these
  names from an object that has no own entry of the name gives the inherited value: a
  built-in function, or for \<open>__proto__\<close> the prototype object itself. They are
  objects, so references; the references 0 to 11 are set aside for them.
\<close>

definition inheritedProperties :: "(string \<times> jsval) list" where
  "inheritedProperties =
     [(''constructor'', JRef 0), (''__defineGetter__'', JRef 1), (''__defineSetter__'', JRef 2),
      (''hasOwnProperty'', JRef 3), (''__lookupGetter__'', JRef 4), (''__lookupSetter__'', JRef 5),
      (''isPrototypeOf'', JRef 6), (''propertyIsEnumerable'', JRef 7), (''toString'', JRef 8),
      (''valueOf'', JRef 9), (''__proto__'', JRef 10), (''toLocaleString'', JRef 11)]"

text \<open>
  \<open>span.metadata?.[key]\<close>: \<open>undefined\<close> when the map is \<open>null\<close> or \<open>undefined\<close>;
  otherwise the own entry of the key, else the inherited property of that name, else
  \<open>undefined\<close>.
\<close>

definition getProperty :: "jsobject nullable \<Rightarrow> string \<Rightarrow> jsval" where
  "getProperty obj key =
     (case obj of
        Value kvs \<Rightarrow>
          (case map_of kvs key of
             Some v \<Rightarrow> v
           | None \<Rightarrow> (case map_of inheritedProperties key of Some v \<Rightarrow> v | None \<Rightarrow> JUndefined))
      | _ \<Rightarrow> JUndefined)"

text \<open>
  The JSONB lines:
  \<^verbatim>\<open>if (filter?.metadata) {
    for (const [key, value] of Object.entries(filter.metadata)) {
      if (span.metadata?.[key] !== value) return false; } }\<close>
\<close>

definition jsonbMismatch :: "jsobject option \<Rightarrow> jsobject nullable \<Rightarrow> bool" where
  "jsonbMismatch wanted actual =
     (case wanted of
        None \<Rightarrow> False
      | Some entries \<Rightarrow> list_ex (\<lambda>(key, v). getProperty actual key \<noteq> v) entries)"

text \<open>\<open>filter?.x\<close>: the field of an optional filter object.\<close>

definition optField :: "('r \<Rightarrow> 'a option) \<Rightarrow> 'r option \<Rightarrow> 'a option" where
  "optField sel obj = (case obj of None \<Rightarrow> None | Some r \<Rightarrow> sel r)"

text \<open>
  The predicate of \<open>filterSpansByFilter\<close>: the span is kept when no line returns
  \<open>false\<close>, the lines in the order of the source.
\<close>

definition spanPassesFilter :: "TracesFilter option \<Rightarrow> SpanRecord \<Rightarrow> bool" where
  "spanPassesFilter flt span =
     (\<not> stringMismatch (optField flt_spanType flt) (definedAs (spanType span)) \<and>
      \<not> entityTypeMismatch (optField flt_entityType flt) (entityType span) \<and>
      \<not> stringMismatch (optField flt_entityId flt) (entityId span) \<and>
      \<not> stringMismatch (optField flt_entityName flt) (entityName span) \<and>
      \<not> statusMismatch (optField flt_status flt) span \<and>
      \<not> stringMismatch (optField flt_userId flt) (userId span) \<and>
      \<not> stringMismatch (optField flt_organizationId flt) (organizationId span) \<and>
      \<not> stringMismatch (optField flt_resourceId flt) (resourceId span) \<and>
      \<not> stringMismatch (optField flt_runId flt) (runId span) \<and>
      \<not> stringMismatch (optField flt_sessionId flt) (sessionId span) \<and>
      \<not> stringMismatch (optField flt_threadId flt) (threadId span) \<and>
      \<not> stringMismatch (optField flt_requestId flt) (requestId span) \<and>
      \<not> stringMismatch (optField flt_environment flt) (environment span) \<and>
      \<not> stringMismatch (optField flt_source flt) (source span) \<and>
      \<not> stringMismatch (optField flt_serviceName flt) (serviceName span) \<and>
      \<not> stringMismatch (optField flt_deploymentId flt) (deploymentId span) \<and>
      \<not> tagsMismatch (optField flt_tags flt) (tags span) \<and>
      \<not> jsonbMismatch (optField flt_metadata flt) (metadata span) \<and>
      \<not> jsonbMismatch (optField flt_scope flt) (scope span) \<and>
      \<not> jsonbMismatch (optField flt_versionInfo flt) (versionInfo span))"

definition filterSpansByFilter :: "SpanRecord list \<Rightarrow> TracesFilter option \<Rightarrow> SpanRecord list" where
  "filterSpansByFilter ss flt = filter (spanPassesFilter flt) ss"

text \<open>
  \<open>Array.prototype.slice(start, end)\<close>: each argument is first truncated toward zero
  (\<open>ToIntegerOrInfinity\<close>); a negative index then counts from the end, and both indices
  are clamped to the array.
\<close>

definition toIntegerOrInfinity :: "rat \<Rightarrow> int" where
  "toIntegerOrInfinity x = (if x < 0 then \<lceil>x\<rceil> else \<lfloor>x\<rfloor>)"

definition slice :: "'a list \<Rightarrow> rat \<Rightarrow> rat \<Rightarrow> 'a list" where
  "slice xs start end =
     (let len = int (length xs);
          relativeStart = toIntegerOrInfinity start;
          relativeEnd = toIntegerOrInfinity end;
          k = (if relativeStart < 0 then max (len + relativeStart) 0 else min relativeStart len);
          final = (if relativeEnd < 0 then max (len + relativeEnd) 0 else min relativeEnd len)
      in take (nat (final - k)) (drop (nat k) xs))"

text \<open>\<open>pagination?.page ?? 0\<close> and \<open>pagination?.perPage ?? 10\<close>.\<close>

definition pageOf :: "PaginationArgs option \<Rightarrow> rat" where
  "pageOf pg = (case optField page pg of None \<Rightarrow> 0 | Some p \<Rightarrow> p)"

definition perPageOf :: "PaginationArgs option \<Rightarrow> rat" where
  "perPageOf pg = (case optField perPage pg of None \<Rightarrow> 10 | Some p \<Rightarrow> p)"

definition filterSpansByPagination :: "SpanRecord list \<Rightarrow> PaginationArgs option \<Rightarrow> SpanRecord list" where
  "filterSpansByPagination ss pg =
     (let page = pageOf pg;
          perPage = perPageOf pg;
          start = page * perPage;
          end = start + perPage
      in slice ss start end)"

definition getTracesPaginated ::
  "InMemoryObservability \<Rightarrow> TracesFilter option \<Rightarrow> PaginationArgs option \<Rightarrow> TracesPage" where
  "getTracesPaginated c filters pg =
     (let allRootSpans = filterForRootSpans (map snd c);
          filteredRootSpans = filterSpansByFilter allRootSpans filters;
          startDate = optField range_start (optField dateRange pg);
          endDate = optField range_end (optField dateRange pg);
          filteredRootSpansByDate = filterSpansByDate filteredRootSpans startDate endDate;
          total = int (length filteredRootSpansByDate);
          page = pageOf pg;
          perPage = perPageOf pg;
          start = page * perPage;
          end = start + perPage;
          paged = filterSpansByPagination filteredRootSpansByDate pg
      in \<lparr>pagination = \<lparr>total = total, info_page = page, info_perPage = perPage,
                           hasMore = (end < of_int total)\<rparr>,
          spans = paged\<rparr>)"

section \<open>Sample data\<close>

text \<open>
  A root span with every nullable column \<open>null\<close>, an empty filter, and an empty set of
  updates, from which the concrete cases below are built.
\<close>

definition blankSpan :: SpanRecord where
  "blankSpan =
     \<lparr>traceId = ''t1'', spanId = ''root'', parentSpanId = Null, name = Some ''run'',
      scope = Null, spanType = Some ''agent_run'', entityType = Null, entityId = Null,
      entityName = Null, userId = Null, organizationId = Null, resourceId = Null,
      runId = Null, sessionId = Null, threadId = Null, requestId = Null,
      environment = Null, source = Null, serviceName = Null, deploymentId = Null,
      versionInfo = Null, attributes = Null, metadata = Null, tags = Null,
      links = JNull, input = JNull, span_output = JNull, error = JNull,
      startedAt = Some 1000, endedAt = Null, isEvent = Some False,
      createdAt = 1000, updatedAt = Some 1000\<rparr>"

definition noFilter :: TracesFilter where
  "noFilter =
     \<lparr>flt_spanType = None, flt_entityType = None, flt_entityId = None,
      flt_entityName = None, flt_status = None, flt_tags = None, flt_userId = None,
      flt_organizationId = None, flt_resourceId = None, flt_runId = None,
      flt_sessionId = None, flt_threadId = None, flt_requestId = None,
      flt_environment = None, flt_source = None, flt_serviceName = None,
      flt_deploymentId = None, flt_metadata = None, flt_scope = None,
      flt_versionInfo = None\<rparr>"

definition noUpdates :: SpanUpdates where
  "noUpdates =
     \<lparr>upd_parentSpanId = None, upd_name = None, upd_scope = None, upd_spanType = None,
      upd_entityType = None, upd_entityId = None, upd_entityName = None,
      upd_userId = None, upd_organizationId = None, upd_resourceId = None,
      upd_runId = None, upd_sessionId = None, upd_threadId = None,
      upd_requestId = None, upd_environment = None, upd_source = None,
      upd_serviceName = None, upd_deploymentId = None, upd_versionInfo = None,
      upd_attributes = None, upd_metadata = None, upd_tags = None, upd_links = None,
      upd_input = None, upd_span_output = None, upd_error = None,
      upd_startedAt = None, upd_endedAt = None, upd_isEvent = None\<rparr>"

text \<open>
  Two spans to create whose (traceId, spanId) pairs differ, with ids of the shape the
  client tests use (\<open>trace-123\<close>, \<open>span-789\<close>).
\<close>

definition spanFirst :: CreateSpanRecord where
  "spanFirst = (CreateSpanRecord.truncate blankSpan)
     \<lparr>traceId := ''trace-1'', spanId := ''a'', name := Some ''first''\<rparr>"

definition spanSecond :: CreateSpanRecord where
  "spanSecond = (CreateSpanRecord.truncate blankSpan)
     \<lparr>traceId := ''trace'', spanId := ''1-a'', name := Some ''second''\<rparr>"

text \<open>A collection of three root spans, of the traces \<open>t1\<close>, \<open>t2\<close> and \<open>t3\<close>.\<close>

definition threeRootSpans :: InMemoryObservability where
  "threeRootSpans =
     [(''t1-root'', blankSpan), (''t2-root'', blankSpan\<lparr>traceId := ''t2''\<rparr>),
      (''t3-root'', blankSpan\<lparr>traceId := ''t3''\<rparr>)]"

section \<open>The query codec: values and built-ins\<close>

text \<open>
  JavaScript data as the codec sees it: the objects handed to and returned by the
  \<open>qs\<close> library and validated by the \<open>zod\<close> schemas. Objects are association
  lists in key order and compare by structure. Numbers in the data are integers.
\<close>

datatype jsdata =
    DUndefined
  | DNull
  | DBool bool
  | DNum int
  | DStr string
  | DDate int
  | DArr "jsdata list"
  | DObj "(string \<times> jsdata) list"

text \<open>
  The result of the coercion \<open>Number(value)\<close>. A finite number that is not an integer
  is kept by its floor, which decides every comparison with an integer bound.
\<close>

datatype jsnumber = NaN | Integer int | NonInteger int | PosInfinity | NegInfinity

text \<open>
  Built-ins of the platform and declarations outside the codec's file, taken as
  parameters: the coercion \<open>Number(value)\<close>, the time value of \<open>new Date(value)\<close>
  (\<open>None\<close> for an invalid date), \<open>Date.prototype.toISOString\<close>,
  \<open>parseInt(string, 10)\<close> (\<open>None\<close> for \<open>NaN\<close>), and the values of the \<open>SpanType\<close>
  enum.
\<close>

record builtins =
  toNumber :: "jsdata \<Rightarrow> jsnumber"
  newDate :: "jsdata \<Rightarrow> int option"
  toISOString :: "int \<Rightarrow> string"
  parseInt10 :: "string \<Rightarrow> int option"
  spanTypeValues :: "string list"

text \<open>
  \<open>String(n)\<close> for an integer of magnitude below \<open>10^21\<close>: its decimal digits, with
  a minus sign when negative. (From \<open>10^21\<close> on \<open>String\<close> writes an exponent; the
  numbers serialized here, page numbers and array indices, are far below.)
\<close>

definition digitChar :: "nat \<Rightarrow> char" where
  "digitChar d = ''0123456789'' ! d"

function showNat :: "nat \<Rightarrow> string" where
  "showNat n =
     (if n < 10 then [digitChar n] else showNat (n div 10) @ [digitChar (n mod 10)])"
  by pat_completeness auto
termination
  by (relation "measure id") auto

declare showNat.simps [simp del]



section \<open>Schema validation\<close>

text \<open>
  A validation issue is a path and a message. The messages are kept by their kind:
  a wrong type (expected type or expected enum values, and the type received), a
  string outside an enum, a number that is not an
  integer or is below a bound, and an invalid date.
\<close>

datatype zmessage =
    Expected string string
  | ExpectedOneOf "string list" string
  | InvalidEnumValue "string list" string
  | ExpectedInteger
  | TooSmall int
  | InvalidDate

type_synonym zissue = "string list \<times> zmessage"

text \<open>The result of a schema on an input: the issues found, or the typed value.\<close>

type_synonym 'a zresult = "zissue list + 'a"

fun getParsedType :: "jsdata \<Rightarrow> string" where
  "getParsedType DUndefined = ''undefined''"
| "getParsedType DNull = ''null''"
| "getParsedType (DBool b) = ''boolean''"
| "getParsedType (DNum n) = ''number''"
| "getParsedType (DStr s) = ''string''"
| "getParsedType (DDate t) = ''date''"
| "getParsedType (DArr xs) = ''array''"
| "getParsedType (DObj kvs) = ''object''"

text \<open>\<open>obj[key]\<close>: \<open>None\<close> when the key is absent or holds \<open>undefined\<close>.\<close>

definition field :: "(string \<times> jsdata) list \<Rightarrow> string \<Rightarrow> jsdata option" where
  "field kvs key = (case map_of kvs key of Some DUndefined \<Rightarrow> None | r \<Rightarrow> r)"

definition issuesOf :: "'a zresult \<Rightarrow> zissue list" where
  "issuesOf r = (case r of Inl issues \<Rightarrow> issues | Inr v \<Rightarrow> [])"

definition valueOf :: "'a option zresult \<Rightarrow> 'a option" where
  "valueOf r = (case r of Inl issues \<Rightarrow> None | Inr v \<Rightarrow> v)"

text \<open>\<open>schema.optional()\<close>: \<open>undefined\<close> passes, anything else goes to the schema.\<close>

definition zOptional ::
  "(jsdata \<Rightarrow> string list \<Rightarrow> 'a zresult) \<Rightarrow> jsdata option \<Rightarrow> string list \<Rightarrow> 'a option zresult" where
  "zOptional schema inp path =
     (case inp of
        None \<Rightarrow> Inr None
      | Some d \<Rightarrow> (case schema d path of Inl issues \<Rightarrow> Inl issues | Inr v \<Rightarrow> Inr (Some v)))"

definition invalidType :: "string \<Rightarrow> jsdata \<Rightarrow> string list \<Rightarrow> 'a zresult" where
  "invalidType expected d path = Inl [(path, Expected expected (getParsedType d))]"

text \<open>\<open>z.string()\<close>, \<open>z.boolean()\<close>.\<close>

definition zString :: "jsdata \<Rightarrow> string list \<Rightarrow> string zresult" where
  "zString d path = (case d of DStr s \<Rightarrow> Inr s | _ \<Rightarrow> invalidType ''string'' d path)"

definition zBoolean :: "jsdata \<Rightarrow> string list \<Rightarrow> bool zresult" where
  "zBoolean d path = (case d of DBool b \<Rightarrow> Inr b | _ \<Rightarrow> invalidType ''boolean'' d path)"

text \<open>
  \<open>z.enum([...])\<close> and \<open>z.nativeEnum\<close> of a string enum: a string among the values.
\<close>

definition zEnum :: "string list \<Rightarrow> jsdata \<Rightarrow> string list \<Rightarrow> string zresult" where
  "zEnum values d path =
     (case d of
        DStr s \<Rightarrow> if s \<in> set values then Inr s else Inl [(path, InvalidEnumValue values s)]
      | _ \<Rightarrow> Inl [(path, ExpectedOneOf values (getParsedType d))])"

definition enumAs :: "(string \<times> 'a) list \<Rightarrow> jsdata \<Rightarrow> string list \<Rightarrow> 'a zresult" where
  "enumAs table d path =
     (case zEnum (map fst table) d path of
        Inl issues \<Rightarrow> Inl issues
      | Inr s \<Rightarrow> (case map_of table s of
                    Some v \<Rightarrow> Inr v
                  | None \<Rightarrow> Inl [(path, InvalidEnumValue (map fst table) s)]))"

datatype TracesOrderByField = order_startedAt | order_endedAt

datatype SortDirection = ASC | DESC

definition spanEntityTypeNames :: "(string \<times> SpanEntityType) list" where
  "spanEntityTypeNames =
     [(''agent'', agent), (''workflow'', workflow), (''tool'', tool),
      (''network'', network), (''step'', step)]"

definition spanStatusNames :: "(string \<times> SpanStatus) list" where
  "spanStatusNames =
     [(''success'', status_success), (''error'', status_error), (''running'', status_running)]"

definition tracesOrderByFieldNames :: "(string \<times> TracesOrderByField) list" where
  "tracesOrderByFieldNames = [(''startedAt'', order_startedAt), (''endedAt'', order_endedAt)]"

definition sortDirectionNames :: "(string \<times> SortDirection) list" where
  "sortDirectionNames = [(''ASC'', ASC), (''DESC'', DESC)]"

definition spanEntityTypeSchema :: "jsdata \<Rightarrow> string list \<Rightarrow> SpanEntityType zresult" where
  "spanEntityTypeSchema = enumAs spanEntityTypeNames"

definition spanStatusSchema :: "jsdata \<Rightarrow> string list \<Rightarrow> SpanStatus zresult" where
  "spanStatusSchema = enumAs spanStatusNames"

definition tracesOrderByFieldSchema :: "jsdata \<Rightarrow> string list \<Rightarrow> TracesOrderByField zresult" where
  "tracesOrderByFieldSchema = enumAs tracesOrderByFieldNames"

definition sortDirectionSchema :: "jsdata \<Rightarrow> string list \<Rightarrow> SortDirection zresult" where
  "sortDirectionSchema = enumAs sortDirectionNames"

text \<open>
  \<open>z.coerce.number().int().min(k)\<close>: the input is replaced by \<open>Number(input)\<close>;
  \<open>NaN\<close> is a type issue and ends the validation, otherwise both checks run.
\<close>

fun isInteger :: "jsnumber \<Rightarrow> bool" where
  "isInteger (Integer i) = True"
| "isInteger _ = False"

fun lessThanInt :: "jsnumber \<Rightarrow> int \<Rightarrow> bool" where
  "lessThanInt NaN k = False"
| "lessThanInt (Integer i) k = (i < k)"
| "lessThanInt (NonInteger fl) k = (fl < k)"
| "lessThanInt PosInfinity k = False"
| "lessThanInt NegInfinity k = True"

definition zCoerceIntMin :: "builtins \<Rightarrow> int \<Rightarrow> jsdata \<Rightarrow> string list \<Rightarrow> int zresult" where
  "zCoerceIntMin B k d path =
     (case toNumber B d of
        NaN \<Rightarrow> Inl [(path, Expected ''number'' ''nan'')]
      | n \<Rightarrow>
          (let issues = (if isInteger n then [] else [(path, ExpectedInteger)]) @
                        (if lessThanInt n k then [(path, TooSmall k)] else [])
           in case n of
                Integer i \<Rightarrow> if issues = [] then Inr i else Inl issues
              | _ \<Rightarrow> Inl issues))"

text \<open>\<open>z.coerce.date()\<close>: the input is replaced by \<open>new Date(input)\<close>.\<close>

definition zCoerceDate :: "builtins \<Rightarrow> jsdata \<Rightarrow> string list \<Rightarrow> int zresult" where
  "zCoerceDate B d path =
     (case newDate B d of None \<Rightarrow> Inl [(path, InvalidDate)] | Some t \<Rightarrow> Inr t)"

text \<open>
  \<open>z.array(z.string())\<close>: every element is validated under the path extended by its
  index, and all issues are kept.
\<close>

fun zStrings :: "jsdata list \<Rightarrow> nat \<Rightarrow> string list \<Rightarrow> zissue list \<times> string list" where
  "zStrings [] i path = ([], [])"
| "zStrings (d # ds) i path =
     (let r = zString d (path @ [showNat i]);
          rest = zStrings ds (Suc i) path
      in (issuesOf r @ fst rest,
          (case r of Inr s \<Rightarrow> [s] | Inl issues \<Rightarrow> []) @ snd rest))"

definition zArrayString :: "jsdata \<Rightarrow> string list \<Rightarrow> string list zresult" where
  "zArrayString d path =
     (case d of
        DArr ds \<Rightarrow> (let r = zStrings ds 0 path in if fst r = [] then Inr (snd r) else Inl (fst r))
      | _ \<Rightarrow> invalidType ''array'' d path)"

text \<open>
  \<open>z.record(z.unknown())\<close>: any object passes with its entries; the key
  \<open>__proto__\<close> is left out of the output.
\<close>

definition zRecordUnknown :: "jsdata \<Rightarrow> string list \<Rightarrow> (string \<times> jsdata) list zresult" where
  "zRecordUnknown d path =
     (case d of
        DObj kvs \<Rightarrow> Inr (filter (\<lambda>(k, v). k \<noteq> ''__proto__'') kvs)
      | _ \<Rightarrow> invalidType ''object'' d path)"

text \<open>
  The preprocessing of \<open>tags\<close>:
  \<^verbatim>\<open>val => (typeof val === 'string' ? val.split(',').filter(t => t.trim() !== '') : val)\<close>
  and of \<open>hasChildError\<close>:
  \<^verbatim>\<open>val => (val === 'true' ? true : val === 'false' ? false : val)\<close>
  A character is a code unit below 256; \<open>trim\<close> strips, of these, the tab, the line
  feed, the vertical tab, the form feed, the carriage return, the space and the
  no-break space \<open>U+00A0\<close>.
\<close>

fun splitOn :: "char \<Rightarrow> string \<Rightarrow> string list" where
  "splitOn sep [] = [[]]"
| "splitOn sep (c # cs) =
     (if c = sep then [] # splitOn sep cs
      else (case splitOn sep cs of
              [] \<Rightarrow> [[c]]
            | w # ws \<Rightarrow> (c # w) # ws))"

definition isWhitespace :: "char \<Rightarrow> bool" where
  "isWhitespace c =
     (c \<in> set [CHR '' '', CHR 0x09, CHR 0x0A, CHR 0x0B, CHR 0x0C, CHR 0x0D, CHR 0xA0])"

definition trimmedEmpty :: "string \<Rightarrow> bool" where
  "trimmedEmpty t = list_all isWhitespace t"

definition tagsPreprocess :: "jsdata \<Rightarrow> jsdata" where
  "tagsPreprocess val =
     (case val of
        DStr s \<Rightarrow> DArr (map DStr (filter (\<lambda>t. \<not> trimmedEmpty t) (splitOn CHR '','' s)))
      | _ \<Rightarrow> val)"

definition hasChildErrorPreprocess :: "jsdata \<Rightarrow> jsdata" where
  "hasChildErrorPreprocess val =
     (if val = DStr ''true'' then DBool True
      else if val = DStr ''false'' then DBool False
      else val)"

section \<open>The schemas of the current revision\<close>

text \<open>
  The typed value \<open>TracesPaginatedArg\<close> inferred from \<open>tracesPaginatedArgSchema\<close>. The
  filter's field names carry the prefix \<open>arg_\<close>.
\<close>

record TracesFilterArg =
  arg_startedAt :: "(DateRange) option"
  arg_endedAt :: "(DateRange) option"
  arg_spanType :: "(string) option"
  arg_entityType :: "(SpanEntityType) option"
  arg_entityId :: "(string) option"
  arg_entityName :: "(string) option"
  arg_userId :: "(string) option"
  arg_organizationId :: "(string) option"
  arg_resourceId :: "(string) option"
  arg_runId :: "(string) option"
  arg_sessionId :: "(string) option"
  arg_threadId :: "(string) option"
  arg_requestId :: "(string) option"
  arg_environment :: "(string) option"
  arg_source :: "(string) option"
  arg_serviceName :: "(string) option"
  arg_deploymentId :: "(string) option"
  arg_metadata :: "((string \<times> jsdata) list) option"
  arg_tags :: "(string list) option"
  arg_scope :: "((string \<times> jsdata) list) option"
  arg_versionInfo :: "((string \<times> jsdata) list) option"
  arg_status :: "(SpanStatus) option"
  arg_hasChildError :: "(bool) option"

record PaginationArg =
  arg_page :: "int option"
  arg_perPage :: "int option"

record TracesOrderBy =
  order_field :: "TracesOrderByField option"
  order_direction :: "SortDirection option"

record TracesPaginatedArg =
  arg_filters :: "TracesFilterArg option"
  arg_pagination :: "PaginationArg option"
  arg_orderBy :: "TracesOrderBy option"

text \<open>
  An object schema validates every field of its shape, in the order of the shape, and
  collects the issues of all of them.
\<close>

definition paginationArgsSchema :: "builtins \<Rightarrow> jsdata \<Rightarrow> string list \<Rightarrow> PaginationArg zresult" where
  "paginationArgsSchema B d path =
     (case d of
        DObj kvs \<Rightarrow>
          (let r_page = zOptional (zCoerceIntMin B 0) (field kvs ''page'') (path @ [''page'']);
               r_perPage = zOptional (zCoerceIntMin B 1) (field kvs ''perPage'') (path @ [''perPage'']);
               issues = issuesOf r_page @ issuesOf r_perPage
           in if issues = [] then Inr \<lparr>arg_page = valueOf r_page, arg_perPage = valueOf r_perPage\<rparr>
              else Inl issues)
      | _ \<Rightarrow> invalidType ''object'' d path)"

definition dateRangeSchema :: "builtins \<Rightarrow> jsdata \<Rightarrow> string list \<Rightarrow> DateRange zresult" where
  "dateRangeSchema B d path =
     (case d of
        DObj kvs \<Rightarrow>
          (let r_start = zOptional (zCoerceDate B) (field kvs ''start'') (path @ [''start'']);
               r_end = zOptional (zCoerceDate B) (field kvs ''end'') (path @ [''end'']);
               issues = issuesOf r_start @ issuesOf r_end
           in if issues = [] then Inr \<lparr>range_start = valueOf r_start, range_end = valueOf r_end\<rparr>
              else Inl issues)
      | _ \<Rightarrow> invalidType ''object'' d path)"

definition tracesOrderBySchema :: "jsdata \<Rightarrow> string list \<Rightarrow> TracesOrderBy zresult" where
  "tracesOrderBySchema d path =
     (case d of
        DObj kvs \<Rightarrow>
          (let r_field = zOptional tracesOrderByFieldSchema (field kvs ''field'') (path @ [''field'']);
               r_direction = zOptional sortDirectionSchema (field kvs ''direction'') (path @ [''direction'']);
               issues = issuesOf r_field @ issuesOf r_direction
           in if issues = [] then Inr \<lparr>order_field = valueOf r_field, order_direction = valueOf r_direction\<rparr>
              else Inl issues)
      | _ \<Rightarrow> invalidType ''object'' d path)"

definition tracesFilterSchema :: "builtins \<Rightarrow> jsdata \<Rightarrow> string list \<Rightarrow> TracesFilterArg zresult" where
  "tracesFilterSchema B d path =
     (case d of
        DObj kvs \<Rightarrow>
          (let r_startedAt = zOptional (dateRangeSchema B) (field kvs ''startedAt'') (path @ [''startedAt'']);
              r_endedAt = zOptional (dateRangeSchema B) (field kvs ''endedAt'') (path @ [''endedAt'']);
              r_spanType = zOptional (zEnum (spanTypeValues B)) (field kvs ''spanType'') (path @ [''spanType'']);
              r_entityType = zOptional (spanEntityTypeSchema) (field kvs ''entityType'') (path @ [''entityType'']);
              r_entityId = zOptional (zString) (field kvs ''entityId'') (path @ [''entityId'']);
              r_entityName = zOptional (zString) (field kvs ''entityName'') (path @ [''entityName'']);
              r_userId = zOptional (zString) (field kvs ''userId'') (path @ [''userId'']);
              r_organizationId = zOptional (zString) (field kvs ''organizationId'') (path @ [''organizationId'']);
              r_resourceId = zOptional (zString) (field kvs ''resourceId'') (path @ [''resourceId'']);
              r_runId = zOptional (zString) (field kvs ''runId'') (path @ [''runId'']);
              r_sessionId = zOptional (zString) (field kvs ''sessionId'') (path @ [''sessionId'']);
              r_threadId = zOptional (zString) (field kvs ''threadId'') (path @ [''threadId'']);
              r_requestId = zOptional (zString) (field kvs ''requestId'') (path @ [''requestId'']);
              r_environment = zOptional (zString) (field kvs ''environment'') (path @ [''environment'']);
              r_source = zOptional (zString) (field kvs ''source'') (path @ [''source'']);
              r_serviceName = zOptional (zString) (field kvs ''serviceName'') (path @ [''serviceName'']);
              r_deploymentId = zOptional (zString) (field kvs ''deploymentId'') (path @ [''deploymentId'']);
              r_metadata = zOptional (zRecordUnknown) (field kvs ''metadata'') (path @ [''metadata'']);
              r_tags = zOptional zArrayString (map_option tagsPreprocess (field kvs ''tags'')) (path @ [''tags'']);
              r_scope = zOptional (zRecordUnknown) (field kvs ''scope'') (path @ [''scope'']);
              r_versionInfo = zOptional (zRecordUnknown) (field kvs ''versionInfo'') (path @ [''versionInfo'']);
              r_status = zOptional (spanStatusSchema) (field kvs ''status'') (path @ [''status'']);
              r_hasChildError = zOptional zBoolean (map_option hasChildErrorPreprocess (field kvs ''hasChildError'')) (path @ [''hasChildError'']);
               issues = issuesOf r_startedAt @
                     issuesOf r_endedAt @
                     issuesOf r_spanType @
                     issuesOf r_entityType @
                     issuesOf r_entityId @
                     issuesOf r_entityName @
                     issuesOf r_userId @
                     issuesOf r_organizationId @
                     issuesOf r_resourceId @
                     issuesOf r_runId @
                     issuesOf r_sessionId @
                     issuesOf r_threadId @
                     issuesOf r_requestId @
                     issuesOf r_environment @
                     issuesOf r_source @
                     issuesOf r_serviceName @
                     issuesOf r_deploymentId @
                     issuesOf r_metadata @
                     issuesOf r_tags @
                     issuesOf r_scope @
                     issuesOf r_versionInfo @
                     issuesOf r_status @
                     issuesOf r_hasChildError
           in if issues = [] then
                Inr \<lparr>arg_startedAt = valueOf r_startedAt,
                     arg_endedAt = valueOf r_endedAt,
                     arg_spanType = valueOf r_spanType,
                     arg_entityType = valueOf r_entityType,
                     arg_entityId = valueOf r_entityId,
                     arg_entityName = valueOf r_entityName,
                     arg_userId = valueOf r_userId,
                     arg_organizationId = valueOf r_organizationId,
                     arg_resourceId = valueOf r_resourceId,
                     arg_runId = valueOf r_runId,
                     arg_sessionId = valueOf r_sessionId,
                     arg_threadId = valueOf r_threadId,
                     arg_requestId = valueOf r_requestId,
                     arg_environment = valueOf r_environment,
                     arg_source = valueOf r_source,
                     arg_serviceName = valueOf r_serviceName,
                     arg_deploymentId = valueOf r_deploymentId,
                     arg_metadata = valueOf r_metadata,
                     arg_tags = valueOf r_tags,
                     arg_scope = valueOf r_scope,
                     arg_versionInfo = valueOf r_versionInfo,
                     arg_status = valueOf r_status,
                     arg_hasChildError = valueOf r_hasChildError\<rparr>
              else Inl issues)
      | _ \<Rightarrow> invalidType ''object'' d path)"

definition tracesPaginatedArgSchema :: "builtins \<Rightarrow> jsdata \<Rightarrow> TracesPaginatedArg zresult" where
  "tracesPaginatedArgSchema B d =
     (case d of
        DObj kvs \<Rightarrow>
          (let r_filters = zOptional (tracesFilterSchema B) (field kvs ''filters'') [''filters''];
               r_pagination = zOptional (paginationArgsSchema B) (field kvs ''pagination'') [''pagination''];
               r_orderBy = zOptional tracesOrderBySchema (field kvs ''orderBy'') [''orderBy''];
               issues = issuesOf r_filters @ issuesOf r_pagination @ issuesOf r_orderBy
           in if issues = [] then
                Inr \<lparr>arg_filters = valueOf r_filters, arg_pagination = valueOf r_pagination,
                     arg_orderBy = valueOf r_orderBy\<rparr>
              else Inl issues)
      | _ \<Rightarrow> invalidType ''object'' d [])"

section \<open>The qs library\<close>

text \<open>
  A query string is kept as the list of its parameters, each a key and a value
  after percent-decoding, in the order of the string: what \<open>qs.parse\<close> has after
  splitting the string at \<open>&\<close> and each part at its \<open>=\<close>, and what \<open>qs.stringify\<close>
  has before it encodes and joins. A part without \<open>=\<close> has the empty value.
\<close>

type_synonym query = "(string \<times> string) list"

subsection \<open>\<open>qs.stringify\<close> with \<open>skipNulls\<close> and \<open>arrayFormat: 'indices'\<close>\<close>



subsection \<open>\<open>qs.parse\<close> with \<open>depth: 2\<close>\<close>

text \<open>
  The values \<open>qs.parse\<close> builds: strings, the \<open>true\<close> it stores when a string is merged
  into an object, arrays (with \<open>QHole\<close> for an index not yet filled) and objects.
\<close>

datatype qval = QHole | QTrue | QStr string | QArr "qval list" | QObj "(string \<times> qval) list"

text \<open>The own property names of \<open>Object.prototype\<close>, which \<open>qs.parse\<close> refuses as keys.\<close>

definition objectPrototypeKeys :: "string list" where
  "objectPrototypeKeys =
     [''constructor'', ''__defineGetter__'', ''__defineSetter__'', ''hasOwnProperty'',
      ''__lookupGetter__'', ''__lookupSetter__'', ''isPrototypeOf'',
      ''propertyIsEnumerable'', ''toString'', ''valueOf'', ''__proto__'',
      ''toLocaleString'']"

text \<open>
  The first match of the pattern \<open>\[[^[\]]*]\<close> in a key: the text before it, the text
  between its brackets, and the text after it.
\<close>

fun closeBracket :: "string \<Rightarrow> (string \<times> string) option" where
  "closeBracket [] = None"
| "closeBracket (c # cs) =
     (if c = CHR '']'' then Some ([], cs)
      else if c = CHR ''['' then None
      else (case closeBracket cs of None \<Rightarrow> None | Some (inside, rest) \<Rightarrow> Some (c # inside, rest)))"

fun firstSegment :: "string \<Rightarrow> (string \<times> string \<times> string) option" where
  "firstSegment [] = None"
| "firstSegment (c # cs) =
     (case (if c = CHR ''['' then closeBracket cs else None) of
        Some (inside, rest) \<Rightarrow> Some ([], inside, rest)
      | None \<Rightarrow>
          (case firstSegment cs of
             None \<Rightarrow> None
           | Some (before, inside, rest) \<Rightarrow> Some (c # before, inside, rest)))"

text \<open>
  \<open>parseKeys\<close> with depth 2: the parent (when not empty), at most two bracketed
  segments, and the rest of the key from a third segment on as one bracketed key.
  \<open>None\<close> when the key is empty or a part of it names a property of
  \<open>Object.prototype\<close>: the parameter is dropped.
\<close>

definition parseChain :: "string \<Rightarrow> string list option" where
  "parseChain key =
     (if key = [] then None
      else case firstSegment key of
        None \<Rightarrow> if key \<in> set objectPrototypeKeys then None else Some [key]
      | Some (parent, in1, rest1) \<Rightarrow>
          if parent \<noteq> [] \<and> parent \<in> set objectPrototypeKeys then None
          else if in1 \<in> set objectPrototypeKeys then None
          else
            (let keys1 = (if parent \<noteq> [] then [parent] else []) @ [''['' @ in1 @ '']'']
             in case firstSegment rest1 of
                  None \<Rightarrow> Some keys1
                | Some (skip2, in2, rest2) \<Rightarrow>
                    if in2 \<in> set objectPrototypeKeys then None
                    else
                      (let keys2 = keys1 @ [''['' @ in2 @ '']'']
                       in case firstSegment rest2 of
                            None \<Rightarrow> Some keys2
                          | Some (skip3, in3, rest3) \<Rightarrow>
                              Some (keys2 @ [''['' @ (''['' @ in3 @ '']'' @ rest3) @ '']'']))))"

text \<open>
  \<open>parseObject\<close>: the leaf is wrapped by the keys of the chain from the last to the
  first. The key \<open>[]\<close> makes an array of the leaf, a bracketed canonical index below
  the array limit of 20 makes an array holding the leaf at that index, and any other key
  but \<open>__proto__\<close> makes an object (so the index 20 is an object key).
\<close>

definition cleanRoot :: "string \<Rightarrow> string" where
  "cleanRoot root =
     (if root \<noteq> [] \<and> hd root = CHR ''['' \<and> last root = CHR '']'' then butlast (tl root) else root)"

definition arrayIndex :: "string \<Rightarrow> nat option" where
  "arrayIndex root =
     (if root \<noteq> cleanRoot root then find (\<lambda>n. showNat n = cleanRoot root) [0..<20] else None)"

definition wrapLeaf :: "string \<Rightarrow> qval \<Rightarrow> qval" where
  "wrapLeaf root leaf =
     (if root = ''[]'' then (case leaf of QArr xs \<Rightarrow> QArr xs | _ \<Rightarrow> QArr [leaf])
      else case arrayIndex root of
        Some i \<Rightarrow> QArr (replicate i QHole @ [leaf])
      | None \<Rightarrow> if cleanRoot root \<noteq> ''__proto__'' then QObj [(cleanRoot root, leaf)] else QObj [])"

definition parseObject :: "string list \<Rightarrow> qval \<Rightarrow> qval" where
  "parseObject chain leaf = foldr wrapLeaf chain leaf"

text \<open>
  \<open>utils.merge\<close>. A falsy source (here: a hole or the empty string) leaves the target
  as it is. A string source is pushed on an array target, becomes a key holding
  \<open>true\<close> of an object target, and is paired with a primitive target. An array or
  object source is concatenated after a primitive target; two arrays are merged index
  by index; otherwise the entries of the source are merged into the target (an array
  target first turned into an object keyed by its indices).
\<close>

definition isObjectLike :: "qval \<Rightarrow> bool" where
  "isObjectLike v = (case v of QArr xs \<Rightarrow> True | QObj kvs \<Rightarrow> True | _ \<Rightarrow> False)"

definition hasIndex :: "qval list \<Rightarrow> nat \<Rightarrow> bool" where
  "hasIndex xs i = (i < length xs \<and> xs ! i \<noteq> QHole)"

definition setIndex :: "qval list \<Rightarrow> nat \<Rightarrow> qval \<Rightarrow> qval list" where
  "setIndex xs i v =
     (if i < length xs then xs[i := v] else xs @ replicate (i - length xs) QHole @ [v])"

fun indexedEntries :: "nat \<Rightarrow> qval list \<Rightarrow> (string \<times> qval) list" where
  "indexedEntries i [] = []"
| "indexedEntries i (x # xs) =
     (if x = QHole then [] else [(showNat i, x)]) @ indexedEntries (Suc i) xs"

definition scalarKey :: "qval \<Rightarrow> string" where
  "scalarKey v = (case v of QStr s \<Rightarrow> s | _ \<Rightarrow> ''true'')"

fun merge :: "qval \<Rightarrow> qval \<Rightarrow> qval"
  and mergeArrays :: "qval list \<Rightarrow> nat \<Rightarrow> qval list \<Rightarrow> qval list"
  and mergeEntries :: "(string \<times> qval) list \<Rightarrow> (string \<times> qval) list \<Rightarrow> (string \<times> qval) list"
  and mergeIndexed :: "(string \<times> qval) list \<Rightarrow> nat \<Rightarrow> qval list \<Rightarrow> (string \<times> qval) list" where
  "merge target QHole = target"
| "merge target QTrue =
     (case target of
        QArr xs \<Rightarrow> QArr (xs @ [QTrue])
      | QObj kvs \<Rightarrow>
          if ''true'' \<in> set objectPrototypeKeys then target
          else QObj (AList.update ''true'' QTrue kvs)
      | _ \<Rightarrow> QArr [target, QTrue])"
| "merge target (QStr s) =
     (if s = [] then target
      else case target of
        QArr xs \<Rightarrow> QArr (xs @ [QStr s])
      | QObj kvs \<Rightarrow>
          if s \<in> set objectPrototypeKeys then target
          else QObj (AList.update s QTrue kvs)
      | _ \<Rightarrow> QArr [target, QStr s])"
| "merge target (QArr ys) =
     (case target of
        QArr xs \<Rightarrow> QArr (mergeArrays xs 0 ys)
      | QObj kvs \<Rightarrow> QObj (mergeIndexed kvs 0 ys)
      | _ \<Rightarrow> QArr (target # ys))"
| "merge target (QObj skvs) =
     (case target of
        QArr xs \<Rightarrow> QObj (mergeEntries (indexedEntries 0 xs) skvs)
      | QObj kvs \<Rightarrow> QObj (mergeEntries kvs skvs)
      | _ \<Rightarrow> QArr [target, QObj skvs])"
| "mergeArrays xs i [] = xs"
| "mergeArrays xs i (item # items) =
     mergeArrays
       (if item = QHole then xs
        else if hasIndex xs i then
          (if isObjectLike (xs ! i) \<and> isObjectLike item then xs[i := merge (xs ! i) item]
           else xs @ [item])
        else setIndex xs i item)
       (Suc i) items"
| "mergeEntries acc [] = acc"
| "mergeEntries acc ((k, v) # skvs) =
     mergeEntries
       (case map_of acc k of
          Some old \<Rightarrow> AList.update k (merge old v) acc
        | None \<Rightarrow> acc @ [(k, v)])
       skvs"
| "mergeIndexed acc i [] = acc"
| "mergeIndexed acc i (item # items) =
     mergeIndexed
       (if item = QHole then acc
        else case map_of acc (showNat i) of
          Some old \<Rightarrow> AList.update (showNat i) (merge old item) acc
        | None \<Rightarrow> acc @ [(showNat i, item)])
       (Suc i) items"

text \<open>
  \<open>utils.compact\<close> removes the holes of every array; the result is the parsed object
  as JavaScript data.
\<close>

fun compact :: "qval \<Rightarrow> jsdata"
  and compactItems :: "qval list \<Rightarrow> jsdata list"
  and compactEntries :: "(string \<times> qval) list \<Rightarrow> (string \<times> jsdata) list" where
  "compact QHole = DUndefined"
| "compact QTrue = DBool True"
| "compact (QStr s) = DStr s"
| "compact (QArr xs) = DArr (compactItems xs)"
| "compact (QObj kvs) = DObj (compactEntries kvs)"
| "compactItems [] = []"
| "compactItems (x # xs) = (if x = QHole then [] else [compact x]) @ compactItems xs"
| "compactEntries [] = []"
| "compactEntries ((k, v) # kvs) = (k, compact v) # compactEntries kvs"

text \<open>
  \<open>parseValues\<close>: at most 1000 parameters are read (the parameter limit); the values
  of a repeated key are combined into one array, at the place of its first occurrence.
\<close>

definition combine :: "qval \<Rightarrow> string \<Rightarrow> qval" where
  "combine old v = (case old of QArr xs \<Rightarrow> QArr (xs @ [QStr v]) | _ \<Rightarrow> QArr [old, QStr v])"

fun parseValues :: "query \<Rightarrow> (string \<times> qval) list \<Rightarrow> (string \<times> qval) list" where
  "parseValues [] acc = acc"
| "parseValues ((k, v) # ps) acc =
     parseValues ps
       (case map_of acc k of
          Some old \<Rightarrow> AList.update k (combine old v) acc
        | None \<Rightarrow> acc @ [(k, QStr v)])"

definition parseKeys :: "string \<Rightarrow> qval \<Rightarrow> qval" where
  "parseKeys key val = (case parseChain key of None \<Rightarrow> QHole | Some chain \<Rightarrow> parseObject chain val)"

definition qs_parse :: "query \<Rightarrow> (string \<times> jsdata) list" where
  "qs_parse str =
     (let tempObj = parseValues (take 1000 str) [];
          obj = fold (\<lambda>(key, val) obj. merge obj (parseKeys key val)) tempObj (QObj [])
      in case compact obj of DObj kvs \<Rightarrow> kvs | _ \<Rightarrow> [])"

section \<open>The codec of the current revision\<close>

definition SCALAR_FILTER_KEYS :: "string list" where
  "SCALAR_FILTER_KEYS =
     [''spanType'', ''entityType'', ''entityId'', ''entityName'', ''userId'',
      ''organizationId'', ''resourceId'', ''runId'', ''sessionId'', ''threadId'',
      ''requestId'', ''environment'', ''source'', ''serviceName'', ''deploymentId'',
      ''status'', ''hasChildError'']"

subsection \<open>\<open>parseTracesQueryParams\<close>\<close>

text \<open>
  The input is a query string or a record of raw parameters, whose values are
  strings, arrays of strings or \<open>undefined\<close>.
\<close>

datatype param = PUndefined | PStr string | PArr "string list"

datatype query_input = QueryString query | QueryRecord "(string \<times> param) list"

text \<open>Step 1: a record is written out as a query string by \<open>URLSearchParams\<close>.\<close>

fun recordToQuery :: "(string \<times> param) list \<Rightarrow> query" where
  "recordToQuery [] = []"
| "recordToQuery ((key, value) # entries) =
     (case value of
        PUndefined \<Rightarrow> []
      | PArr vs \<Rightarrow> map (\<lambda>v. (key, v)) vs
      | PStr v \<Rightarrow> [(key, v)]) @ recordToQuery entries"

definition toQueryString :: "query_input \<Rightarrow> query" where
  "toQueryString inp = (case inp of QueryString q \<Rightarrow> q | QueryRecord r \<Rightarrow> recordToQuery r)"

text \<open>
  Step 3: the parsed parameters are moved into the structure of the schema. The entry
  of a key is copied when the key is defined.
\<close>

definition copyDefined :: "(string \<times> jsdata) list \<Rightarrow> string list \<Rightarrow> (string \<times> jsdata) list" where
  "copyDefined parsed keys =
     List.map_filter (\<lambda>key. map_option (Pair key) (field parsed key)) keys"

definition restructure :: "(string \<times> jsdata) list \<Rightarrow> (string \<times> jsdata) list" where
  "restructure parsed =
     (let pagination =
            (if field parsed ''page'' \<noteq> None \<or> field parsed ''perPage'' \<noteq> None
             then [(''pagination'', DObj (copyDefined parsed [''page'', ''perPage'']))]
             else []);
          filters = copyDefined parsed SCALAR_FILTER_KEYS @
                    copyDefined parsed [''startedAt'', ''endedAt'', ''tags'', ''metadata'',
                                        ''scope'', ''versionInfo''];
          orderBy = copyDefined parsed [''orderBy'']
      in pagination @ (if length filters > 0 then [(''filters'', DObj filters)] else []) @ orderBy)"

text \<open>Step 4 and the result: the typed data, or one error per issue of the schema.\<close>

fun joinWith :: "string \<Rightarrow> string list \<Rightarrow> string" where
  "joinWith sep [] = []"
| "joinWith sep [x] = x"
| "joinWith sep (x # y # zs) = x @ sep @ joinWith sep (y # zs)"

record ValidationError =
  field_path :: string
  message :: zmessage

datatype 'a ParseOutcome = ParseResult 'a | ParseErrorResult "ValidationError list"

definition toValidationErrors :: "zissue list \<Rightarrow> ValidationError list" where
  "toValidationErrors issues =
     map (\<lambda>(path, msg). \<lparr>field_path = joinWith ''.'' path, message = msg\<rparr>) issues"

definition validateRestructured ::
  "builtins \<Rightarrow> (string \<times> jsdata) list \<Rightarrow> TracesPaginatedArg ParseOutcome" where
  "validateRestructured B restructured =
     (case tracesPaginatedArgSchema B (DObj restructured) of
        Inl issues \<Rightarrow> ParseErrorResult (toValidationErrors issues)
      | Inr data \<Rightarrow> ParseResult data)"

definition parseTracesQueryParams :: "builtins \<Rightarrow> query_input \<Rightarrow> TracesPaginatedArg ParseOutcome" where
  "parseTracesQueryParams B inp =
     (let queryString = toQueryString inp;
          parsed = qs_parse queryString;
          restructured = restructure parsed
      in validateRestructured B restructured)"

subsection \<open>\<open>serializeTracesParams\<close>\<close>











section \<open>The legacy revision of the codec\<close>

text \<open>
  The earlier revision of the same file: dot notation for nested keys, a hand-written
  transformation of the raw parameters, and schemas that do not coerce.
\<close>

record LegacyFilterArg =
  legacy_dateRange :: "(DateRange) option"
  legacy_spanType :: "(string) option"
  legacy_entityType :: "(SpanEntityType) option"
  legacy_entityId :: "(string) option"
  legacy_entityName :: "(string) option"
  legacy_userId :: "(string) option"
  legacy_organizationId :: "(string) option"
  legacy_resourceId :: "(string) option"
  legacy_runId :: "(string) option"
  legacy_sessionId :: "(string) option"
  legacy_threadId :: "(string) option"
  legacy_requestId :: "(string) option"
  legacy_environment :: "(string) option"
  legacy_source :: "(string) option"
  legacy_serviceName :: "(string) option"
  legacy_deploymentId :: "(string) option"
  legacy_metadata :: "((string \<times> jsdata) list) option"
  legacy_tags :: "(string list) option"
  legacy_scope :: "((string \<times> jsdata) list) option"
  legacy_versionInfo :: "((string \<times> jsdata) list) option"
  legacy_status :: "(SpanStatus) option"
  legacy_hasChildError :: "(bool) option"

record LegacyPaginatedArg =
  legacy_filters :: "LegacyFilterArg option"
  legacy_pagination :: "PaginationArg option"

text \<open>\<open>z.number().int().min(k)\<close> and \<open>z.date()\<close>, without coercion.\<close>

definition zIntMin :: "int \<Rightarrow> jsdata \<Rightarrow> string list \<Rightarrow> int zresult" where
  "zIntMin k d path =
     (case d of
        DNum n \<Rightarrow> if n < k then Inl [(path, TooSmall k)] else Inr n
      | _ \<Rightarrow> invalidType ''number'' d path)"

definition zDate :: "jsdata \<Rightarrow> string list \<Rightarrow> int zresult" where
  "zDate d path = (case d of DDate t \<Rightarrow> Inr t | _ \<Rightarrow> invalidType ''date'' d path)"

definition legacyPaginationArgsSchema :: "jsdata \<Rightarrow> string list \<Rightarrow> PaginationArg zresult" where
  "legacyPaginationArgsSchema d path =
     (case d of
        DObj kvs \<Rightarrow>
          (let r_page = zOptional (zIntMin 0) (field kvs ''page'') (path @ [''page'']);
               r_perPage = zOptional (zIntMin 1) (field kvs ''perPage'') (path @ [''perPage'']);
               issues = issuesOf r_page @ issuesOf r_perPage
           in if issues = [] then Inr \<lparr>arg_page = valueOf r_page, arg_perPage = valueOf r_perPage\<rparr>
              else Inl issues)
      | _ \<Rightarrow> invalidType ''object'' d path)"

definition legacyDateRangeSchema :: "jsdata \<Rightarrow> string list \<Rightarrow> DateRange zresult" where
  "legacyDateRangeSchema d path =
     (case d of
        DObj kvs \<Rightarrow>
          (let r_start = zOptional zDate (field kvs ''start'') (path @ [''start'']);
               r_end = zOptional zDate (field kvs ''end'') (path @ [''end'']);
               issues = issuesOf r_start @ issuesOf r_end
           in if issues = [] then Inr \<lparr>range_start = valueOf r_start, range_end = valueOf r_end\<rparr>
              else Inl issues)
      | _ \<Rightarrow> invalidType ''object'' d path)"

definition legacyTracesFilterSchema :: "builtins \<Rightarrow> jsdata \<Rightarrow> string list \<Rightarrow> LegacyFilterArg zresult" where
  "legacyTracesFilterSchema B d path =
     (case d of
        DObj kvs \<Rightarrow>
          (let r_dateRange = zOptional (legacyDateRangeSchema) (field kvs ''dateRange'') (path @ [''dateRange'']);
              r_spanType = zOptional (zEnum (spanTypeValues B)) (field kvs ''spanType'') (path @ [''spanType'']);
              r_entityType = zOptional (spanEntityTypeSchema) (field kvs ''entityType'') (path @ [''entityType'']);
              r_entityId = zOptional (zString) (field kvs ''entityId'') (path @ [''entityId'']);
              r_entityName = zOptional (zString) (field kvs ''entityName'') (path @ [''entityName'']);
              r_userId = zOptional (zString) (field kvs ''userId'') (path @ [''userId'']);
              r_organizationId = zOptional (zString) (field kvs ''organizationId'') (path @ [''organizationId'']);
              r_resourceId = zOptional (zString) (field kvs ''resourceId'') (path @ [''resourceId'']);
              r_runId = zOptional (zString) (field kvs ''runId'') (path @ [''runId'']);
              r_sessionId = zOptional (zString) (field kvs ''sessionId'') (path @ [''sessionId'']);
              r_threadId = zOptional (zString) (field kvs ''threadId'') (path @ [''threadId'']);
              r_requestId = zOptional (zString) (field kvs ''requestId'') (path @ [''requestId'']);
              r_environment = zOptional (zString) (field kvs ''environment'') (path @ [''environment'']);
              r_source = zOptional (zString) (field kvs ''source'') (path @ [''source'']);
              r_serviceName = zOptional (zString) (field kvs ''serviceName'') (path @ [''serviceName'']);
              r_deploymentId = zOptional (zString) (field kvs ''deploymentId'') (path @ [''deploymentId'']);
              r_metadata = zOptional (zRecordUnknown) (field kvs ''metadata'') (path @ [''metadata'']);
              r_tags = zOptional (zArrayString) (field kvs ''tags'') (path @ [''tags'']);
              r_scope = zOptional (zRecordUnknown) (field kvs ''scope'') (path @ [''scope'']);
              r_versionInfo = zOptional (zRecordUnknown) (field kvs ''versionInfo'') (path @ [''versionInfo'']);
              r_status = zOptional (spanStatusSchema) (field kvs ''status'') (path @ [''status'']);
              r_hasChildError = zOptional (zBoolean) (field kvs ''hasChildError'') (path @ [''hasChildError'']);
               issues = issuesOf r_dateRange @
                     issuesOf r_spanType @
                     issuesOf r_entityType @
                     issuesOf r_entityId @
                     issuesOf r_entityName @
                     issuesOf r_userId @
                     issuesOf r_organizationId @
                     issuesOf r_resourceId @
                     issuesOf r_runId @
                     issuesOf r_sessionId @
                     issuesOf r_threadId @
                     issuesOf r_requestId @
                     issuesOf r_environment @
                     issuesOf r_source @
                     issuesOf r_serviceName @
                     issuesOf r_deploymentId @
                     issuesOf r_metadata @
                     issuesOf r_tags @
                     issuesOf r_scope @
                     issuesOf r_versionInfo @
                     issuesOf r_status @
                     issuesOf r_hasChildError
           in if issues = [] then
                Inr \<lparr>legacy_dateRange = valueOf r_dateRange,
                     legacy_spanType = valueOf r_spanType,
                     legacy_entityType = valueOf r_entityType,
                     legacy_entityId = valueOf r_entityId,
                     legacy_entityName = valueOf r_entityName,
                     legacy_userId = valueOf r_userId,
                     legacy_organizationId = valueOf r_organizationId,
                     legacy_resourceId = valueOf r_resourceId,
                     legacy_runId = valueOf r_runId,
                     legacy_sessionId = valueOf r_sessionId,
                     legacy_threadId = valueOf r_threadId,
                     legacy_requestId = valueOf r_requestId,
                     legacy_environment = valueOf r_environment,
                     legacy_source = valueOf r_source,
                     legacy_serviceName = valueOf r_serviceName,
                     legacy_deploymentId = valueOf r_deploymentId,
                     legacy_metadata = valueOf r_metadata,
                     legacy_tags = valueOf r_tags,
                     legacy_scope = valueOf r_scope,
                     legacy_versionInfo = valueOf r_versionInfo,
                     legacy_status = valueOf r_status,
                     legacy_hasChildError = valueOf r_hasChildError\<rparr>
              else Inl issues)
      | _ \<Rightarrow> invalidType ''object'' d path)"

definition legacyTracesPaginatedArgSchema :: "builtins \<Rightarrow> jsdata \<Rightarrow> LegacyPaginatedArg zresult" where
  "legacyTracesPaginatedArgSchema B d =
     (case d of
        DObj kvs \<Rightarrow>
          (let r_filters = zOptional (legacyTracesFilterSchema B) (field kvs ''filters'') [''filters''];
               r_pagination = zOptional legacyPaginationArgsSchema (field kvs ''pagination'') [''pagination''];
               issues = issuesOf r_filters @ issuesOf r_pagination
           in if issues = [] then
                Inr \<lparr>legacy_filters = valueOf r_filters, legacy_pagination = valueOf r_pagination\<rparr>
              else Inl issues)
      | _ \<Rightarrow> invalidType ''object'' d [])"

text \<open>
  \<open>transformQueryParams\<close>. The loop keeps three objects: \<open>filters\<close>, \<open>pagination\<close>
  and \<open>nestedObjects\<close>. An assignment \<open>obj[key] = v\<close> is \<open>AList.update\<close>, except
  under the key \<open>__proto__\<close>, where it adds no own key. A read \<open>nestedObjects[prefix]\<close>
  of a name inherited from \<open>Object.prototype\<close> is truthy, so that no object is made
  for the prefix and the write goes to the inherited built-in object: the three objects
  of the loop stay as they are. (What such a write does to the built-in object is not
  followed further.)
\<close>

record transformState =
  st_filters :: "(string \<times> jsdata) list"
  st_pagination :: "(string \<times> jsdata) list"
  st_nestedObjects :: "(string \<times> (string \<times> string) list) list"

definition trim :: "string \<Rightarrow> string" where
  "trim t = rev (dropWhile isWhitespace (rev (dropWhile isWhitespace t)))"

definition isTruthyData :: "jsdata \<Rightarrow> bool" where
  "isTruthyData d =
     (case d of
        DUndefined \<Rightarrow> False
      | DNull \<Rightarrow> False
      | DBool b \<Rightarrow> b
      | DNum n \<Rightarrow> n \<noteq> 0
      | DStr s \<Rightarrow> s \<noteq> []
      | _ \<Rightarrow> True)"

text \<open>
  The body of the loop for one entry. The result is \<open>None\<close> when the assignment
  \<open>filters.dateRange[nestedKey] = date\<close> meets a string under \<open>filters.dateRange\<close>
  (written by a parameter named \<open>dateRange\<close>), where a module throws a
  \<open>TypeError\<close>.
\<close>

definition transformEntry :: "builtins \<Rightarrow> string \<Rightarrow> param \<Rightarrow> transformState \<Rightarrow> transformState option" where
  "transformEntry B key value st =
     (if value = PUndefined \<or> value = PStr [] then Some st
      else case (case value of PArr vs \<Rightarrow> (case vs of [] \<Rightarrow> None | v # rest \<Rightarrow> Some v)
                             | PStr s \<Rightarrow> Some s
                             | PUndefined \<Rightarrow> None) of
        None \<Rightarrow> Some st
      | Some val \<Rightarrow>
          if key = ''page'' then
            (case parseInt10 B val of
               Some num \<Rightarrow> Some (st\<lparr>st_pagination := AList.update ''page'' (DNum num) (st_pagination st)\<rparr>)
             | None \<Rightarrow> Some st)
          else if key = ''perPage'' then
            (case parseInt10 B val of
               Some num \<Rightarrow> Some (st\<lparr>st_pagination := AList.update ''perPage'' (DNum num) (st_pagination st)\<rparr>)
             | None \<Rightarrow> Some st)
          else if key = ''tags'' then
            Some (st\<lparr>st_filters := AList.update ''tags''
                     (DArr (map DStr (filter (\<lambda>t. t \<noteq> []) (map trim (splitOn CHR '','' val)))))
                     (st_filters st)\<rparr>)
          else if key = ''hasChildError'' then
            (if val = ''true'' then
               Some (st\<lparr>st_filters := AList.update ''hasChildError'' (DBool True) (st_filters st)\<rparr>)
             else if val = ''false'' then
               Some (st\<lparr>st_filters := AList.update ''hasChildError'' (DBool False) (st_filters st)\<rparr>)
             else Some st)
          else if CHR ''.'' \<in> set key then
            (let prefix = takeWhile (\<lambda>c. c \<noteq> CHR ''.'') key;
                 nestedKey = tl (dropWhile (\<lambda>c. c \<noteq> CHR ''.'') key)
             in if prefix = ''dateRange'' then
                  (let filters1 =
                         (case field (st_filters st) ''dateRange'' of
                            None \<Rightarrow> AList.update ''dateRange'' (DObj []) (st_filters st)
                          | Some d \<Rightarrow>
                              if isTruthyData d then st_filters st
                              else AList.update ''dateRange'' (DObj []) (st_filters st))
                   in case newDate B (DStr val) of
                        None \<Rightarrow> Some (st\<lparr>st_filters := filters1\<rparr>)
                      | Some date \<Rightarrow>
                          (case field filters1 ''dateRange'' of
                             Some (DObj entries) \<Rightarrow>
                               if nestedKey = ''__proto__'' then Some (st\<lparr>st_filters := filters1\<rparr>)
                               else
                               Some (st\<lparr>st_filters := AList.update ''dateRange''
                                        (DObj (AList.update nestedKey (DDate date) entries)) filters1\<rparr>)
                           | _ \<Rightarrow> None))
                else if map_of (st_nestedObjects st) prefix = None \<and> prefix \<in> set objectPrototypeKeys
                  then Some st
                else if nestedKey = ''__proto__'' then
                  Some (st\<lparr>st_nestedObjects := AList.update prefix
                           (case map_of (st_nestedObjects st) prefix of None \<Rightarrow> [] | Some nested \<Rightarrow> nested)
                           (st_nestedObjects st)\<rparr>)
                else
                  Some (st\<lparr>st_nestedObjects := AList.update prefix
                           (AList.update nestedKey val
                              (case map_of (st_nestedObjects st) prefix of None \<Rightarrow> [] | Some nested \<Rightarrow> nested))
                           (st_nestedObjects st)\<rparr>))
          else if key = ''__proto__'' then Some st
          else Some (st\<lparr>st_filters := AList.update key (DStr val) (st_filters st)\<rparr>))"

fun transformEntries :: "builtins \<Rightarrow> (string \<times> param) list \<Rightarrow> transformState \<Rightarrow> transformState option" where
  "transformEntries B [] st = Some st"
| "transformEntries B ((key, value) # entries) st =
     (case transformEntry B key value st of
        None \<Rightarrow> None
      | Some st' \<Rightarrow> transformEntries B entries st')"

definition transformQueryParams :: "builtins \<Rightarrow> (string \<times> param) list \<Rightarrow> (string \<times> jsdata) list option" where
  "transformQueryParams B params =
     (case transformEntries B params \<lparr>st_filters = [], st_pagination = [], st_nestedObjects = []\<rparr> of
        None \<Rightarrow> None
      | Some st \<Rightarrow>
          (let filters = fold (\<lambda>(prefix, nested) acc.
                                 AList.update prefix (DObj (map (\<lambda>(k, v). (k, DStr v)) nested)) acc)
                              (st_nestedObjects st) (st_filters st)
           in Some ((if length (st_pagination st) > 0 then [(''pagination'', DObj (st_pagination st))] else []) @
                    (if length filters > 0 then [(''filters'', DObj filters)] else []))))"

text \<open>
  The legacy \<open>parseTracesQueryParams\<close>; \<open>None\<close> when \<open>transformQueryParams\<close> throws.
\<close>

definition legacyParseTracesQueryParams ::
  "builtins \<Rightarrow> (string \<times> param) list \<Rightarrow> LegacyPaginatedArg ParseOutcome option" where
  "legacyParseTracesQueryParams B params =
     (case transformQueryParams B params of
        None \<Rightarrow> None
      | Some transformed \<Rightarrow>
          Some (case legacyTracesPaginatedArgSchema B (DObj transformed) of
                  Inl issues \<Rightarrow> ParseErrorResult (toValidationErrors issues)
                | Inr data \<Rightarrow> ParseResult data))"

section \<open>The violated fields of a request\<close>

text \<open>
  The field-level errors of a restructured request, stated field by field and apart
  from the schema functions above: a shape is the list of its fields, each with the
  issues its own validator finds in the value under that field. The issues of an
  object are those of all the fields of its shape; a value that is not an object is one
  issue at the object's own path.
\<close>

type_synonym fieldCheck = "jsdata option \<Rightarrow> string list \<Rightarrow> zissue list"

definition leafIssues :: "(jsdata \<Rightarrow> string list \<Rightarrow> 'a zresult) \<Rightarrow> fieldCheck" where
  "leafIssues schema inp path = issuesOf (zOptional schema inp path)"

definition objectIssues :: "(string \<times> fieldCheck) list \<Rightarrow> fieldCheck" where
  "objectIssues shape inp path =
     (case inp of
        None \<Rightarrow> []
      | Some d \<Rightarrow>
          (case d of
             DObj kvs \<Rightarrow> concat (map (\<lambda>(name, check). check (field kvs name) (path @ [name])) shape)
           | _ \<Rightarrow> [(path, Expected ''object'' (getParsedType d))]))"

definition dateRangeShape :: "builtins \<Rightarrow> (string \<times> fieldCheck) list" where
  "dateRangeShape B =
     [(''start'', leafIssues (zCoerceDate B)), (''end'', leafIssues (zCoerceDate B))]"

definition paginationShape :: "builtins \<Rightarrow> (string \<times> fieldCheck) list" where
  "paginationShape B =
     [(''page'', leafIssues (zCoerceIntMin B 0)), (''perPage'', leafIssues (zCoerceIntMin B 1))]"

definition orderByShape :: "(string \<times> fieldCheck) list" where
  "orderByShape =
     [(''field'', leafIssues tracesOrderByFieldSchema),
      (''direction'', leafIssues sortDirectionSchema)]"

definition filterShape :: "builtins \<Rightarrow> (string \<times> fieldCheck) list" where
  "filterShape B =
     [(''startedAt'', objectIssues (dateRangeShape B)),
      (''endedAt'', objectIssues (dateRangeShape B)),
      (''spanType'', leafIssues (zEnum (spanTypeValues B))),
      (''entityType'', leafIssues spanEntityTypeSchema),
      (''entityId'', leafIssues zString),
      (''entityName'', leafIssues zString),
      (''userId'', leafIssues zString),
      (''organizationId'', leafIssues zString),
      (''resourceId'', leafIssues zString),
      (''runId'', leafIssues zString),
      (''sessionId'', leafIssues zString),
      (''threadId'', leafIssues zString),
      (''requestId'', leafIssues zString),
      (''environment'', leafIssues zString),
      (''source'', leafIssues zString),
      (''serviceName'', leafIssues zString),
      (''deploymentId'', leafIssues zString),
      (''metadata'', leafIssues zRecordUnknown),
      (''tags'', \<lambda>inp. leafIssues zArrayString (map_option tagsPreprocess inp)),
      (''scope'', leafIssues zRecordUnknown),
      (''versionInfo'', leafIssues zRecordUnknown),
      (''status'', leafIssues spanStatusSchema),
      (''hasChildError'', \<lambda>inp. leafIssues zBoolean (map_option hasChildErrorPreprocess inp))]"

definition violations :: "builtins \<Rightarrow> (string \<times> jsdata) list \<Rightarrow> zissue list" where
  "violations B restructured =
     objectIssues (filterShape B) (field restructured ''filters'') [''filters''] @
     objectIssues (paginationShape B) (field restructured ''pagination'') [''pagination''] @
     objectIssues orderByShape (field restructured ''orderBy'') [''orderBy'']"

section \<open>Sample built-ins\<close>

text \<open>
  The built-ins at the values the concrete cases below use: \<open>Number\<close> and
  \<open>parseInt\<close> on a few numerals, the date \<open>2024-01-01T00:00:00.000Z\<close> with its
  time value, and three span types. Everywhere else the sample answers \<open>NaN\<close>, an
  invalid date or the empty string.
\<close>

definition sampleBuiltins :: builtins where
  "sampleBuiltins =
     \<lparr>toNumber = (\<lambda>d. if d = DStr ''0'' then Integer 0
                        else if d = DStr ''20'' then Integer 20
                        else if d = DStr ''-1'' then Integer (- 1)
                        else NaN),
      newDate = (\<lambda>d. if d = DStr ''2024-01-01T00:00:00.000Z'' then Some 1704067200000 else None),
      toISOString = (\<lambda>t. if t = 1704067200000 then ''2024-01-01T00:00:00.000Z'' else []),
      parseInt10 = (\<lambda>s. if s = ''0'' then Some 0 else if s = ''20'' then Some 20 else None),
      spanTypeValues = [''agent_run'', ''workflow_run'', ''tool_call'']\<rparr>"

text \<open>
  The \<open>filters\<close> object collected in step 3 of \<open>parseTracesQueryParams\<close>, and the
  legacy filter with no field set.
\<close>

definition filtersOf :: "(string \<times> jsdata) list \<Rightarrow> (string \<times> jsdata) list" where
  "filtersOf parsed = copyDefined parsed SCALAR_FILTER_KEYS @
     copyDefined parsed [''startedAt'', ''endedAt'', ''tags'', ''metadata'', ''scope'', ''versionInfo'']"

definition noLegacyFilter :: LegacyFilterArg where
  "noLegacyFilter =
     \<lparr>legacy_dateRange = None, legacy_spanType = None, legacy_entityType = None,
      legacy_entityId = None, legacy_entityName = None, legacy_userId = None,
      legacy_organizationId = None, legacy_resourceId = None, legacy_runId = None,
      legacy_sessionId = None, legacy_threadId = None, legacy_requestId = None,
      legacy_environment = None, legacy_source = None, legacy_serviceName = None,
      legacy_deploymentId = None, legacy_metadata = None, legacy_tags = None,
      legacy_scope = None, legacy_versionInfo = None, legacy_status = None,
      legacy_hasChildError = None\<rparr>"

section \<open>Values that survive the query string\<close>









definition tempOf :: "query \<Rightarrow> (string \<times> qval) list" where
  "tempOf ps = map (\<lambda>(key, v). (key, QStr v)) ps"

text \<open>The loop of \<open>qs.parse\<close> over the parameters, from a given object.\<close>

definition mergeParams :: "(string \<times> qval) list \<Rightarrow> qval \<Rightarrow> qval" where
  "mergeParams tempObj obj = fold (\<lambda>(key, val) obj. merge obj (parseKeys key val)) tempObj obj"

section \<open>Requests that survive the query string\<close>

















section \<open>Sample requests\<close>




section \<open>Properties of the listing\<close>

lemma set_slice_subset: "set (slice xs a b) \<subseteq> set xs"
  unfolding slice_def Let_def
  by (meson order_trans set_take_subset set_drop_subset)

lemma length_slice_le:
  assumes "0 \<le> n"
  shows "int (length (slice xs x (x + of_int n))) \<le> n"
proof -
  define rs where "rs = toIntegerOrInfinity x"
  define re where "re = toIntegerOrInfinity (x + of_int n)"
  define len where "len = int (length xs)"
  define k where "k = (if rs < 0 then max (len + rs) 0 else min rs len)"
  define final where "final = (if re < 0 then max (len + re) 0 else min re len)"
  have sl: "slice xs x (x + of_int n) = take (nat (final - k)) (drop (nat k) xs)"
    by (simp add: slice_def Let_def rs_def re_def len_def k_def final_def)
  have len0: "0 \<le> len" by (simp add: len_def)
  define fl where "fl = \<lfloor>x\<rfloor>"
  define cl where "cl = \<lceil>x\<rceil>"
  have bound: "final - k \<le> n"
  proof (cases "0 \<le> x")
    case True
    then have "rs = fl" "re = fl + n" "0 \<le> fl"
      using assms by (simp_all add: rs_def re_def fl_def toIntegerOrInfinity_def)
    then show ?thesis using assms len0 by (auto simp: k_def final_def max_def min_def)
  next
    case neg: False
    show ?thesis
    proof (cases "x + of_int n < 0")
      case True
      then have "rs = cl" "re = cl + n" "cl + n \<le> 0"
        using neg by (simp_all add: rs_def re_def cl_def toIntegerOrInfinity_def flip: ceiling_add_of_int)
      then show ?thesis using assms len0 by (auto simp: k_def final_def max_def min_def)
    next
      case False
      then have "0 \<le> \<lfloor>x + of_int n\<rfloor>" by (simp only: zero_le_floor not_less)
      then have "0 \<le> fl + n" by (simp add: fl_def)
      moreover have "rs = cl" "re = fl + n" "cl \<le> 0" "fl < 0"
        using neg False by (simp_all add: rs_def re_def cl_def fl_def toIntegerOrInfinity_def)
      ultimately have "rs = cl" "re = fl + n" "cl \<le> 0" "fl < 0" "0 \<le> fl + n" by blast+
      then show ?thesis using assms len0 by (auto simp: k_def final_def max_def min_def)
    qed
  qed
  have "length (take (nat (final - k)) (drop (nat k) xs)) \<le> nat (final - k)"
    by (simp only: length_take min.cobounded2)
  then have "int (length (slice xs x (x + of_int n))) \<le> int (nat (final - k))"
    unfolding sl by (simp only: of_nat_le_iff)
  also have "\<dots> \<le> n" using bound assms by simp
  finally show ?thesis .
qed

lemma listed_span:
  assumes "s \<in> set (spans (getTracesPaginated c f pg))"
  shows "s \<in> snd ` set c \<and> parentSpanId s = Null \<and> spanPassesFilter f s"
proof -
  from assms have "s \<in> set (filterSpansByDate (filterSpansByFilter (filterForRootSpans (map snd c)) f)
      (optField range_start (optField dateRange pg)) (optField range_end (optField dateRange pg)))"
    unfolding getTracesPaginated_def filterSpansByPagination_def Let_def
    using set_slice_subset by fastforce
  then show ?thesis
    unfolding filterSpansByDate_def filterSpansByFilter_def filterForRootSpans_def by auto
qed

lemma single_listing:
  "spans (getTracesPaginated [(k, s)] f None) =
     (if parentSpanId s = Null \<and> spanPassesFilter f s then [s] else [])"
  by (simp add: getTracesPaginated_def filterSpansByPagination_def filterSpansByDate_def
      filterSpansByFilter_def filterForRootSpans_def Let_def optField_def pageOf_def perPageOf_def
      slice_def toIntegerOrInfinity_def)

lemma passes_no_filter: "spanPassesFilter None s"
  by (simp add: spanPassesFilter_def optField_def stringMismatch_def entityTypeMismatch_def
      statusMismatch_def tagsMismatch_def jsonbMismatch_def)

subsection \<open>Derived status\<close>

lemmas mismatch_defs = stringMismatch_def entityTypeMismatch_def statusMismatch_def
  tagsMismatch_def jsonbMismatch_def optField_def

lemma passes_noFilter_status:
  "spanPassesFilter (Some (noFilter\<lparr>flt_status := Some st\<rparr>)) s
     \<longleftrightarrow> getSpanStatus (error s) (endedAt s) = st"
  by (simp add: spanPassesFilter_def noFilter_def mismatch_defs getSpanStatus_def Let_def)

lemma passes_status:
  "optField flt_status f = Some st \<Longrightarrow> spanPassesFilter f s \<Longrightarrow> getSpanStatus (error s) (endedAt s) = st"
  by (simp add: spanPassesFilter_def statusMismatch_def getSpanStatus_def Let_def)

lemma endedAt_undefined_stored:
  "updateSpan 2000 ''t1'' ''root'' (noUpdates\<lparr>upd_endedAt := Some Undefined\<rparr>)
      [(''t1-root'', blankSpan)]
     = (None, [(''t1-root'', blankSpan\<lparr>endedAt := Undefined, updatedAt := Some 2000\<rparr>)])"
  by (simp add: updateSpan_def generateId_def Let_def mergeUpdates_def spread_def noUpdates_def
      blankSpan_def)

text \<open>
  Claim C2 asks for \<open>error\<close> whenever the \<open>error\<close> column is not \<open>null\<close>, and
  otherwise for \<open>running\<close> whenever the span has no \<open>endedAt\<close>. The code tests the
  truthiness of \<open>error\<close> and compares \<open>endedAt\<close> with \<open>=== null\<close>, in the filter and
  in \<open>getSpanStatus\<close> alike, and this differs on two inputs.

  A root span whose \<open>error\<close> is the empty string (present, not \<open>null\<close>) and whose
  \<open>endedAt\<close> is \<open>null\<close> is not listed under \<open>status = error\<close>; it is listed under
  \<open>status = running\<close>.

  \<open>updateSpan\<close> with the updates \<open>{endedAt: undefined}\<close> on a running root span stores
  \<open>undefined\<close> in \<open>endedAt\<close>; the span, which has not ended and has no error, is then
  not listed under \<open>status = running\<close> but under \<open>status = success\<close>.
\<close>

theorem derived_status_departs_from_rule:
  "error (blankSpan\<lparr>error := JStr []\<rparr>) \<noteq> JNull \<and>
   error (blankSpan\<lparr>error := JStr []\<rparr>) \<noteq> JUndefined \<and>
   getSpanStatus (JStr []) Null = status_running \<and>
   spans (getTracesPaginated [(''t1-root'', blankSpan\<lparr>error := JStr []\<rparr>)]
       (Some (noFilter\<lparr>flt_status := Some status_error\<rparr>)) None) = [] \<and>
   spans (getTracesPaginated [(''t1-root'', blankSpan\<lparr>error := JStr []\<rparr>)]
       (Some (noFilter\<lparr>flt_status := Some status_running\<rparr>)) None)
     = [blankSpan\<lparr>error := JStr []\<rparr>] \<and>
   updateSpan 2000 ''t1'' ''root'' (noUpdates\<lparr>upd_endedAt := Some Undefined\<rparr>)
      [(''t1-root'', blankSpan)]
     = (None, [(''t1-root'', blankSpan\<lparr>endedAt := Undefined, updatedAt := Some 2000\<rparr>)]) \<and>
   getSpanStatus JNull Undefined = status_success \<and>
   spans (getTracesPaginated [(''t1-root'', blankSpan\<lparr>endedAt := Undefined, updatedAt := Some 2000\<rparr>)]
       (Some (noFilter\<lparr>flt_status := Some status_running\<rparr>)) None) = [] \<and>
   spans (getTracesPaginated [(''t1-root'', blankSpan\<lparr>endedAt := Undefined, updatedAt := Some 2000\<rparr>)]
       (Some (noFilter\<lparr>flt_status := Some status_success\<rparr>)) None)
     = [blankSpan\<lparr>endedAt := Undefined, updatedAt := Some 2000\<rparr>]"
  by (simp add: endedAt_undefined_stored single_listing passes_noFilter_status getSpanStatus_def,
      simp add: blankSpan_def)

subsection \<open>Pagination\<close>

lemma floor_half: "\<lfloor>1 / 2 :: rat\<rfloor> = 0"
  by (rule floor_unique) simp_all

lemma threeRootSpans_listed:
  "filterSpansByDate (filterSpansByFilter (filterForRootSpans (map snd threeRootSpans)) None) None None
     = map snd threeRootSpans"
  by (simp add: threeRootSpans_def filterSpansByDate_def filterSpansByFilter_def
      filterForRootSpans_def passes_no_filter blankSpan_def)

text \<open>
  Claim C3, for a page number and a page size that are whole numbers. For every
  collection, filter and pagination argument, the returned \<open>total\<close> is the number of
  root spans left after the filter and the date range, \<open>page\<close> is the given page or 0
  and \<open>perPage\<close> is the given size or 10. When both are integers, \<open>hasMore\<close> is
  \<open>(page + 1) * perPage < total\<close>, and when moreover \<open>perPage\<close> is not negative the
  returned list is no longer than \<open>perPage\<close>.
\<close>

theorem pagination_invariant:
  "(let r = getTracesPaginated c f pg;
        info = pagination r
    in total info = int (length (filterSpansByDate
                      (filterSpansByFilter (filterForRootSpans (map snd c)) f)
                      (optField range_start (optField dateRange pg))
                      (optField range_end (optField dateRange pg)))) \<and>
       info_page info = (case optField page pg of None \<Rightarrow> 0 | Some p \<Rightarrow> p) \<and>
       info_perPage info = (case optField perPage pg of None \<Rightarrow> 10 | Some p \<Rightarrow> p) \<and>
       (info_page info \<in> \<int> \<and> info_perPage info \<in> \<int> \<longrightarrow>
          hasMore info = ((info_page info + 1) * info_perPage info < of_int (total info)) \<and>
          (0 \<le> info_perPage info \<longrightarrow> of_nat (length (spans r)) \<le> info_perPage info)))"
proof -
  have len: "of_nat (length (slice xs (p * pp) (p * pp + pp))) \<le> pp"
    if "pp \<in> \<int>" "0 \<le> pp" for xs :: "SpanRecord list" and p pp :: rat
  proof -
    from that(1) obtain n where n: "pp = of_int n" by (rule Ints_cases)
    with that(2) have "0 \<le> n" by simp
    then have "int (length (slice xs (p * pp) (p * pp + of_int n))) \<le> n"
      by (rule length_slice_le)
    then have "(of_int (int (length (slice xs (p * pp) (p * pp + of_int n)))) :: rat) \<le> of_int n"
      by (simp only: of_int_le_iff)
    then show ?thesis by (simp add: n)
  qed
  show ?thesis
    unfolding Let_def
    apply (intro conjI impI)
        apply (simp add: getTracesPaginated_def Let_def)
       apply (simp add: getTracesPaginated_def Let_def pageOf_def)
      apply (simp add: getTracesPaginated_def Let_def perPageOf_def)
     apply (simp add: getTracesPaginated_def Let_def algebra_simps)
    apply (simp add: getTracesPaginated_def Let_def filterSpansByPagination_def len)
    done
qed

text \<open>
  The invariant on three root spans with \<open>page = 0\<close> and \<open>perPage = 2\<close>: two spans
  are returned and there are more.
\<close>

theorem pagination_invariant_witness:
  "info_page (pagination (getTracesPaginated threeRootSpans None
        (Some \<lparr>dateRange = None, page = Some 0, perPage = Some 2\<rparr>))) \<in> \<int> \<and>
   info_perPage (pagination (getTracesPaginated threeRootSpans None
        (Some \<lparr>dateRange = None, page = Some 0, perPage = Some 2\<rparr>))) \<in> \<int> \<and>
   0 \<le> info_perPage (pagination (getTracesPaginated threeRootSpans None
        (Some \<lparr>dateRange = None, page = Some 0, perPage = Some 2\<rparr>))) \<and>
   (of_nat (length (spans (getTracesPaginated threeRootSpans None
        (Some \<lparr>dateRange = None, page = Some 0, perPage = Some 2\<rparr>)))) :: rat) \<le> 2 \<and>
   hasMore (pagination (getTracesPaginated threeRootSpans None
        (Some \<lparr>dateRange = None, page = Some 0, perPage = Some 2\<rparr>)))"
proof -
  let ?pg = "Some \<lparr>dateRange = None, page = Some 0, perPage = Some 2\<rparr>"
  let ?info = "pagination (getTracesPaginated threeRootSpans None ?pg)"
  note inv = pagination_invariant [of threeRootSpans None ?pg, unfolded Let_def]
  have tot: "total ?info = 3"
    using inv [THEN conjunct1]
    by (simp add: optField_def threeRootSpans_listed, simp add: threeRootSpans_def)
  have pg: "info_page ?info = 0"
    using inv [THEN conjunct2, THEN conjunct1] by (simp add: optField_def)
  have pp: "info_perPage ?info = 2"
    using inv [THEN conjunct2, THEN conjunct2, THEN conjunct1] by (simp add: optField_def)
  have rest: "info_page ?info \<in> \<int> \<and> info_perPage ?info \<in> \<int> \<longrightarrow>
      hasMore ?info = ((info_page ?info + 1) * info_perPage ?info < of_int (total ?info)) \<and>
      (0 \<le> info_perPage ?info \<longrightarrow>
         of_nat (length (spans (getTracesPaginated threeRootSpans None ?pg))) \<le> info_perPage ?info)"
    using inv [THEN conjunct2, THEN conjunct2, THEN conjunct2] .
  show ?thesis using tot pg pp rest by simp
qed

text \<open>
  Claim C3 as stated bounds the length of the list by \<open>perPage\<close> for every call. The
  store takes any number as \<open>page\<close> and \<open>perPage\<close>. With three root spans stored and
  \<open>perPage = -1\<close> (page unset), \<open>slice(0, -1)\<close> returns two spans; with \<open>page = 1\<close>
  and \<open>perPage = 0.5\<close>, \<open>slice(0.5, 1)\<close> truncates its bounds and returns one span,
  more than half a span.
\<close>

theorem pagination_length_counterexample:
  "info_perPage (pagination (getTracesPaginated threeRootSpans None
        (Some \<lparr>dateRange = None, page = None, perPage = Some (- 1)\<rparr>))) = - 1 \<and>
   length (spans (getTracesPaginated threeRootSpans None
        (Some \<lparr>dateRange = None, page = None, perPage = Some (- 1)\<rparr>))) = 2 \<and>
   info_perPage (pagination (getTracesPaginated threeRootSpans None
        (Some \<lparr>dateRange = None, page = Some 1, perPage = Some (1 / 2)\<rparr>))) = 1 / 2 \<and>
   length (spans (getTracesPaginated threeRootSpans None
        (Some \<lparr>dateRange = None, page = Some 1, perPage = Some (1 / 2)\<rparr>))) = 1"
  by (simp add: getTracesPaginated_def filterSpansByPagination_def Let_def optField_def
      pageOf_def perPageOf_def threeRootSpans_listed slice_def toIntegerOrInfinity_def
      ceiling_minus floor_half, simp add: threeRootSpans_def)

subsection \<open>Tags\<close>

lemma tagsMismatch_iff:
  "\<not> tagsMismatch (Some ts) actual \<longleftrightarrow>
     ts = [] \<or> (\<exists>have. actual = Value have \<and> set ts \<inter> set have \<noteq> {})"
  by (cases actual) (auto simp: tagsMismatch_def list_ex_iff)

lemma passes_noFilter_tags:
  "spanPassesFilter (Some (noFilter\<lparr>flt_tags := Some ts\<rparr>)) s
     \<longleftrightarrow> \<not> tagsMismatch (Some ts) (tags s)"
  by (simp add: spanPassesFilter_def noFilter_def stringMismatch_def entityTypeMismatch_def
      statusMismatch_def jsonbMismatch_def optField_def)

lemma passes_tags:
  "optField flt_tags f = Some ts \<Longrightarrow> spanPassesFilter f s \<Longrightarrow> \<not> tagsMismatch (Some ts) (tags s)"
  by (simp add: spanPassesFilter_def)

text \<open>
  Claim C4. Under a non-empty tags filter, every span \<open>getTracesPaginated\<close> lists has
  a tags list that shares a tag with the filter. A root span with tags \<open>["a","b"]\<close> is
  listed under the filter \<open>["b","c"]\<close> and not under \<open>["c","d"]\<close>.
\<close>

theorem tags_filter_matches_any:
  "(optField flt_tags f = Some ts \<longrightarrow> ts \<noteq> [] \<longrightarrow>
      s \<in> set (spans (getTracesPaginated c f pg)) \<longrightarrow>
      (\<exists>have. tags s = Value have \<and> set ts \<inter> set have \<noteq> {})) \<and>
   spans (getTracesPaginated [(''t1-root'', blankSpan\<lparr>tags := Value [''a'', ''b'']\<rparr>)]
       (Some (noFilter\<lparr>flt_tags := Some [''b'', ''c'']\<rparr>)) None)
     = [blankSpan\<lparr>tags := Value [''a'', ''b'']\<rparr>] \<and>
   spans (getTracesPaginated [(''t1-root'', blankSpan\<lparr>tags := Value [''a'', ''b'']\<rparr>)]
       (Some (noFilter\<lparr>flt_tags := Some [''c'', ''d'']\<rparr>)) None) = []"
proof (intro conjI impI)
  assume "optField flt_tags f = Some ts" "ts \<noteq> []" "s \<in> set (spans (getTracesPaginated c f pg))"
  then have "\<not> tagsMismatch (Some ts) (tags s)"
    using listed_span passes_tags by blast
  with \<open>ts \<noteq> []\<close> show "\<exists>have. tags s = Value have \<and> set ts \<inter> set have \<noteq> {}"
    by (simp add: tagsMismatch_iff)
next
  show "spans (getTracesPaginated [(''t1-root'', blankSpan\<lparr>tags := Value [''a'', ''b'']\<rparr>)]
       (Some (noFilter\<lparr>flt_tags := Some [''b'', ''c'']\<rparr>)) None)
     = [blankSpan\<lparr>tags := Value [''a'', ''b'']\<rparr>]"
    by (simp add: single_listing passes_noFilter_tags tagsMismatch_iff blankSpan_def)
next
  show "spans (getTracesPaginated [(''t1-root'', blankSpan\<lparr>tags := Value [''a'', ''b'']\<rparr>)]
       (Some (noFilter\<lparr>flt_tags := Some [''c'', ''d'']\<rparr>)) None) = []"
    by (simp add: single_listing passes_noFilter_tags tagsMismatch_iff blankSpan_def)
qed

text \<open>
  The span with tags \<open>["a","b"]\<close> listed under \<open>["b","c"]\<close> shares the tag \<open>b\<close>.
\<close>

theorem tags_filter_matches_any_witness:
  "optField flt_tags (Some (noFilter\<lparr>flt_tags := Some [''b'', ''c'']\<rparr>)) = Some [''b'', ''c''] \<and>
   [''b'', ''c''] \<noteq> [] \<and>
   blankSpan\<lparr>tags := Value [''a'', ''b'']\<rparr>
     \<in> set (spans (getTracesPaginated [(''t1-root'', blankSpan\<lparr>tags := Value [''a'', ''b'']\<rparr>)]
         (Some (noFilter\<lparr>flt_tags := Some [''b'', ''c'']\<rparr>)) None)) \<and>
   (\<exists>have. tags (blankSpan\<lparr>tags := Value [''a'', ''b'']\<rparr>) = Value have \<and>
      set [''b'', ''c''] \<inter> set have \<noteq> {})"
  using tags_filter_matches_any [of "Some (noFilter\<lparr>flt_tags := Some [''b'', ''c'']\<rparr>)"
      "[''b'', ''c'']" "blankSpan\<lparr>tags := Value [''a'', ''b'']\<rparr>"
      "[(''t1-root'', blankSpan\<lparr>tags := Value [''a'', ''b'']\<rparr>)]" None]
  by (simp add: optField_def)

subsection \<open>Key/value filters\<close>

lemma jsonbMismatch_iff:
  "\<not> jsonbMismatch (Some entries) actual \<longleftrightarrow> (\<forall>(k, v) \<in> set entries. getProperty actual k = v)"
  by (auto simp: jsonbMismatch_def list_ex_iff)

lemma passes_noFilter_metadata:
  "spanPassesFilter (Some (noFilter\<lparr>flt_metadata := Some entries\<rparr>)) s
     \<longleftrightarrow> \<not> jsonbMismatch (Some entries) (metadata s)"
  by (simp add: spanPassesFilter_def noFilter_def stringMismatch_def entityTypeMismatch_def
      statusMismatch_def tagsMismatch_def optField_def, simp add: jsonbMismatch_def)

lemma passes_noFilter_scope:
  "spanPassesFilter (Some (noFilter\<lparr>flt_scope := Some entries\<rparr>)) s
     \<longleftrightarrow> \<not> jsonbMismatch (Some entries) (scope s)"
  by (simp add: spanPassesFilter_def noFilter_def stringMismatch_def entityTypeMismatch_def
      statusMismatch_def tagsMismatch_def optField_def, simp add: jsonbMismatch_def)

lemma passes_noFilter_versionInfo:
  "spanPassesFilter (Some (noFilter\<lparr>flt_versionInfo := Some entries\<rparr>)) s
     \<longleftrightarrow> \<not> jsonbMismatch (Some entries) (versionInfo s)"
  by (simp add: spanPassesFilter_def noFilter_def stringMismatch_def entityTypeMismatch_def
      statusMismatch_def tagsMismatch_def optField_def, simp add: jsonbMismatch_def)

lemma passes_jsonb:
  assumes "spanPassesFilter f s"
  shows "\<not> jsonbMismatch (optField flt_metadata f) (metadata s)"
    and "\<not> jsonbMismatch (optField flt_scope f) (scope s)"
    and "\<not> jsonbMismatch (optField flt_versionInfo f) (versionInfo s)"
  using assms by (simp_all add: spanPassesFilter_def)

text \<open>
  Claim C5 says that a span whose map lacks a key of the filter never matches. The
  code compares \<open>span.metadata?.[key] !== value\<close>, and the read of a key the map
  lacks is not a miss: it gives \<open>undefined\<close>, or the property of that name inherited
  from \<open>Object.prototype\<close>. So a root span whose metadata is \<open>{}\<close> is listed under
  the filter \<open>{x: undefined}\<close>, and under the filter \<open>{constructor: Object}\<close> (the
  reference 0 is the function \<open>Object\<close>), although it has neither key. The three
  cases the claim gives come out as it says.
\<close>

theorem jsonb_filter_matches_missing_key:
  "map_of [] ''x'' = (None :: jsval option) \<and>
   spans (getTracesPaginated [(''t1-root'', blankSpan\<lparr>metadata := Value []\<rparr>)]
       (Some (noFilter\<lparr>flt_metadata := Some [(''x'', JUndefined)]\<rparr>)) None)
     = [blankSpan\<lparr>metadata := Value []\<rparr>] \<and>
   map_of [] ''constructor'' = (None :: jsval option) \<and>
   spans (getTracesPaginated [(''t1-root'', blankSpan\<lparr>metadata := Value []\<rparr>)]
       (Some (noFilter\<lparr>flt_metadata := Some [(''constructor'', JRef 0)]\<rparr>)) None)
     = [blankSpan\<lparr>metadata := Value []\<rparr>] \<and>
   spanPassesFilter (Some (noFilter\<lparr>flt_metadata := Some [(''x'', JStr ''1'')]\<rparr>))
      (blankSpan\<lparr>metadata := Value [(''x'', JStr ''1''), (''y'', JStr ''2'')]\<rparr>) \<and>
   \<not> spanPassesFilter (Some (noFilter\<lparr>flt_metadata := Some [(''x'', JStr ''1'')]\<rparr>))
      (blankSpan\<lparr>metadata := Value [(''x'', JStr ''2'')]\<rparr>) \<and>
   \<not> spanPassesFilter (Some (noFilter\<lparr>flt_metadata := Some [(''x'', JStr ''1'')]\<rparr>))
      (blankSpan\<lparr>metadata := Value []\<rparr>)"
  by (simp add: single_listing passes_noFilter_metadata jsonbMismatch_def getProperty_def
      inheritedProperties_def, simp add: blankSpan_def)

section \<open>Properties of the store\<close>

lemma validate_none_iff:
  "validateCreateSpan span = None \<longleftrightarrow> spanId span \<noteq> [] \<and> traceId span \<noteq> []"
  by (simp add: validateCreateSpan_def)

lemma createSpan_error:
  "validateCreateSpan span = Some e \<Longrightarrow> createSpan now span c = (Some e, c)"
  by (simp add: createSpan_def)

lemma createSpan_ok:
  "validateCreateSpan span = None \<Longrightarrow>
     createSpan now span c =
       (None, AList.update (generateId (traceId span) (spanId span))
                (CreateSpanRecord.extend span (SpanRecord.fields now (Some now))) c)"
  by (simp add: createSpan_def Let_def)

lemma stored_record_columns:
  "CreateSpanRecord.truncate (CreateSpanRecord.extend span (SpanRecord.fields now (Some now))) = span"
  "createdAt (CreateSpanRecord.extend span (SpanRecord.fields now (Some now))) = now"
  "updatedAt (CreateSpanRecord.extend span (SpanRecord.fields now (Some now))) = Some now"
  by (simp_all add: CreateSpanRecord.defs SpanRecord.defs)

text \<open>
  Claim C10. \<open>createSpan\<close> throws exactly when \<open>spanId\<close> or \<open>traceId\<close> is missing
  (for a string id: empty), and then leaves the collection as it was. With both ids
  given and a record already stored under the span's id, the call does not throw: the
  entry is replaced in place (the keys of the collection are unchanged) by a record
  with the columns of the given span and \<open>createdAt\<close> and \<open>updatedAt\<close> set to the
  current time.
\<close>

theorem createSpan_fails_iff_id_missing:
  "(fst (createSpan now span c) \<noteq> None \<longleftrightarrow> spanId span = [] \<or> traceId span = []) \<and>
   (fst (createSpan now span c) \<noteq> None \<longrightarrow> snd (createSpan now span c) = c) \<and>
   (spanId span \<noteq> [] \<longrightarrow> traceId span \<noteq> [] \<longrightarrow>
      map_of c (generateId (traceId span) (spanId span)) = Some old \<longrightarrow>
      (\<exists>r. createSpan now span c = (None, AList.update (generateId (traceId span) (spanId span)) r c) \<and>
           map_of (snd (createSpan now span c)) (generateId (traceId span) (spanId span)) = Some r \<and>
           map fst (snd (createSpan now span c)) = map fst c \<and>
           CreateSpanRecord.truncate r = span \<and> createdAt r = now \<and> updatedAt r = Some now))"
proof (intro conjI impI)
  show "fst (createSpan now span c) \<noteq> None \<longleftrightarrow> spanId span = [] \<or> traceId span = []"
    by (cases "validateCreateSpan span")
       (use validate_none_iff [of span] in \<open>auto simp: createSpan_ok createSpan_error\<close>)
next
  assume "fst (createSpan now span c) \<noteq> None"
  then show "snd (createSpan now span c) = c"
    by (cases "validateCreateSpan span") (auto simp: createSpan_ok createSpan_error)
next
  let ?id = "generateId (traceId span) (spanId span)"
  let ?r = "CreateSpanRecord.extend span (SpanRecord.fields now (Some now))"
  assume ids: "spanId span \<noteq> []" "traceId span \<noteq> []" and old: "map_of c ?id = Some old"
  then have ok: "createSpan now span c = (None, AList.update ?id ?r c)"
    using validate_none_iff createSpan_ok by blast
  from old have "?id \<in> fst ` set c"
    by (metis map_of_SomeD fst_conv image_eqI)
  then have keys: "map fst (AList.update ?id ?r c) = map fst c"
    by (simp add: update_keys)
  show "\<exists>r. createSpan now span c = (None, AList.update ?id r c) \<and>
           map_of (snd (createSpan now span c)) ?id = Some r \<and>
           map fst (snd (createSpan now span c)) = map fst c \<and>
           CreateSpanRecord.truncate r = span \<and> createdAt r = now \<and> updatedAt r = Some now"
    by (rule exI [of _ ?r]) (simp add: ok keys update_conv' stored_record_columns)
qed

text \<open>
  Creating the stored span \<open>t1\<close>/\<open>root\<close> again at time 2000.
\<close>

theorem createSpan_fails_iff_id_missing_witness:
  "spanId (CreateSpanRecord.truncate blankSpan) \<noteq> [] \<and>
   traceId (CreateSpanRecord.truncate blankSpan) \<noteq> [] \<and>
   map_of [(''t1-root'', blankSpan)]
      (generateId (traceId (CreateSpanRecord.truncate blankSpan))
                  (spanId (CreateSpanRecord.truncate blankSpan)))
     = Some blankSpan \<and>
   (\<exists>r. createSpan 2000 (CreateSpanRecord.truncate blankSpan) [(''t1-root'', blankSpan)]
          = (None, AList.update (generateId (traceId (CreateSpanRecord.truncate blankSpan))
                                  (spanId (CreateSpanRecord.truncate blankSpan))) r
                     [(''t1-root'', blankSpan)]) \<and>
        map_of (snd (createSpan 2000 (CreateSpanRecord.truncate blankSpan) [(''t1-root'', blankSpan)]))
           (generateId (traceId (CreateSpanRecord.truncate blankSpan))
                       (spanId (CreateSpanRecord.truncate blankSpan))) = Some r \<and>
        map fst (snd (createSpan 2000 (CreateSpanRecord.truncate blankSpan) [(''t1-root'', blankSpan)]))
          = map fst [(''t1-root'', blankSpan)] \<and>
        CreateSpanRecord.truncate r = CreateSpanRecord.truncate blankSpan \<and>
        createdAt r = 2000 \<and> updatedAt r = Some 2000)"
proof -
  have h1: "spanId (CreateSpanRecord.truncate blankSpan) \<noteq> []"
    by (simp add: blankSpan_def CreateSpanRecord.defs)
  have h2: "traceId (CreateSpanRecord.truncate blankSpan) \<noteq> []"
    by (simp add: blankSpan_def CreateSpanRecord.defs)
  have k: "map_of [(''t1-root'', blankSpan)]
      (generateId (traceId (CreateSpanRecord.truncate blankSpan))
                  (spanId (CreateSpanRecord.truncate blankSpan)))
     = Some blankSpan"
    by (simp add: blankSpan_def CreateSpanRecord.defs generateId_def)
  show ?thesis
    using h1 h2 k
      createSpan_fails_iff_id_missing [of 2000 "CreateSpanRecord.truncate blankSpan"
        "[(''t1-root'', blankSpan)]" blankSpan]
    by blast
qed

lemma updateSpan_unknown_id:
  "map_of c (generateId tid sid) = None \<Longrightarrow>
     updateSpan now tid sid updates c = (Some OBSERVABILITY_UPDATE_SPAN_NOT_FOUND, c)"
  by (simp add: updateSpan_def Let_def)

lemma updateSpan_known_id:
  "map_of c (generateId tid sid) = Some span \<Longrightarrow>
     updateSpan now tid sid updates c =
       (None, AList.update (generateId tid sid)
                ((mergeUpdates span updates)\<lparr>updatedAt := Some now\<rparr>) c)"
  by (simp add: updateSpan_def Let_def)

lemma first_created:
  "createSpan 1000 spanFirst [] =
     (None, [(''trace-1-a'', CreateSpanRecord.extend spanFirst (SpanRecord.fields 1000 (Some 1000)))])"
  by (simp add: createSpan_def validateCreateSpan_def generateId_def spanFirst_def Let_def
      CreateSpanRecord.defs blankSpan_def)

text \<open>
  Claim C6 at a collection that holds the single span \<open>trace-1\<close>/\<open>a\<close>: the pair
  \<open>trace\<close>/\<open>1-a\<close> is not in the store, and \<open>updateSpan\<close> on it does not throw; it
  renames the span \<open>trace-1\<close>/\<open>a\<close> and refreshes its \<open>updatedAt\<close>, since both pairs
  have the id \<open>trace-1-a\<close>.
\<close>

theorem updateSpan_absent_pair_succeeds:
  "map (\<lambda>r. (traceId r, spanId r, name r, updatedAt r)) (map snd (snd (createSpan 1000 spanFirst [])))
     = [(''trace-1'', ''a'', Some ''first'', Some 1000)] \<and>
   fst (updateSpan 3000 ''trace'' ''1-a'' (noUpdates\<lparr>upd_name := Some (Some ''renamed'')\<rparr>)
          (snd (createSpan 1000 spanFirst []))) = None \<and>
   map (\<lambda>r. (traceId r, spanId r, name r, updatedAt r))
       (map snd (snd (updateSpan 3000 ''trace'' ''1-a'' (noUpdates\<lparr>upd_name := Some (Some ''renamed'')\<rparr>)
          (snd (createSpan 1000 spanFirst [])))))
     = [(''trace-1'', ''a'', Some ''renamed'', Some 3000)]"
  by (simp add: first_created updateSpan_def generateId_def Let_def mergeUpdates_def spread_def
      noUpdates_def, simp add: spanFirst_def CreateSpanRecord.defs SpanRecord.defs blankSpan_def)

text \<open>
  Claim C7 at the same two pairs: they differ and have the same generated id, and
  after creating \<open>trace-1\<close>/\<open>a\<close> and then \<open>trace\<close>/\<open>1-a\<close> the collection holds
  only the second record; the first has been replaced.
\<close>

theorem createSpan_replaces_other_pair:
  "(traceId spanFirst, spanId spanFirst) \<noteq> (traceId spanSecond, spanId spanSecond) \<and>
   generateId (traceId spanFirst) (spanId spanFirst)
     = generateId (traceId spanSecond) (spanId spanSecond) \<and>
   map (\<lambda>r. (traceId r, spanId r, name r)) (map snd (snd (createSpan 1000 spanFirst [])))
     = [(''trace-1'', ''a'', Some ''first'')] \<and>
   map (\<lambda>r. (traceId r, spanId r, name r))
       (map snd (snd (createSpan 2000 spanSecond (snd (createSpan 1000 spanFirst [])))))
     = [(''trace'', ''1-a'', Some ''second'')]"
  by (simp add: first_created createSpan_def validateCreateSpan_def generateId_def Let_def,
      simp add: spanFirst_def spanSecond_def CreateSpanRecord.defs SpanRecord.defs blankSpan_def)

section \<open>Properties of the codec\<close>

subsection \<open>Collected validation errors\<close>

lemma issuesOf_simps [simp]: "issuesOf (Inl is) = is" "issuesOf (Inr v) = []"
  by (simp_all add: issuesOf_def)

lemma issuesOf_collected [simp]: "issuesOf (if is = [] then Inr v else Inl is) = is"
  by (simp add: issuesOf_def)

lemma issuesOf_zOptional_Some: "issuesOf (zOptional schema (Some d) path) = issuesOf (schema d path)"
  by (simp add: zOptional_def issuesOf_def split: sum.splits)

lemma paginationArgs_issues:
  "issuesOf (zOptional (paginationArgsSchema B) inp path) = objectIssues (paginationShape B) inp path"
proof (cases inp)
  case None
  then show ?thesis by (simp add: zOptional_def objectIssues_def)
next
  case (Some d)
  then show ?thesis
    by (cases d)
       (simp_all add: zOptional_def objectIssues_def paginationArgsSchema_def paginationShape_def
          leafIssues_def invalidType_def Let_def)
qed

lemma dateRange_issues:
  "issuesOf (zOptional (dateRangeSchema B) inp path) = objectIssues (dateRangeShape B) inp path"
proof (cases inp)
  case None
  then show ?thesis by (simp add: zOptional_def objectIssues_def)
next
  case (Some d)
  then show ?thesis
    by (cases d)
       (simp_all add: zOptional_def objectIssues_def dateRangeSchema_def dateRangeShape_def
          leafIssues_def invalidType_def Let_def)
qed

lemma orderBy_issues:
  "issuesOf (zOptional tracesOrderBySchema inp path) = objectIssues orderByShape inp path"
proof (cases inp)
  case None
  then show ?thesis by (simp add: zOptional_def objectIssues_def)
next
  case (Some d)
  then show ?thesis
    by (cases d)
       (simp_all add: zOptional_def objectIssues_def tracesOrderBySchema_def orderByShape_def
          leafIssues_def invalidType_def Let_def)
qed

lemma tracesFilter_issues:
  "issuesOf (zOptional (tracesFilterSchema B) inp path) = objectIssues (filterShape B) inp path"
proof (cases inp)
  case None
  then show ?thesis by (simp add: zOptional_def objectIssues_def)
next
  case (Some d)
  show ?thesis
  proof (cases d)
    case (DObj kvs)
    have "issuesOf (tracesFilterSchema B (DObj kvs) path)
        = concat (map (\<lambda>(name, check). check (field kvs name) (path @ [name])) (filterShape B))"
      unfolding tracesFilterSchema_def Let_def jsdata.case
      by (subst issuesOf_collected) (simp add: filterShape_def leafIssues_def dateRange_issues)
    then show ?thesis using Some DObj
      by (simp add: issuesOf_zOptional_Some objectIssues_def)
  qed (use Some in \<open>simp_all add: zOptional_def objectIssues_def tracesFilterSchema_def invalidType_def\<close>)
qed

lemma schema_issues:
  "issuesOf (tracesPaginatedArgSchema B (DObj r)) = violations B r"
  unfolding tracesPaginatedArgSchema_def Let_def violations_def
  by (simp add: tracesFilter_issues paginationArgs_issues orderBy_issues)

lemma schema_never_empty_issues: "tracesPaginatedArgSchema B (DObj r) \<noteq> Inl []"
  by (simp add: tracesPaginatedArgSchema_def Let_def)

lemma schema_outcome:
  "(violations B r \<noteq> [] \<longrightarrow> tracesPaginatedArgSchema B (DObj r) = Inl (violations B r)) \<and>
   (violations B r = [] \<longrightarrow> (\<exists>data. tracesPaginatedArgSchema B (DObj r) = Inr data))"
proof (cases "tracesPaginatedArgSchema B (DObj r)")
  case (Inl issues)
  with schema_issues [of B r] have "issues = violations B r" by simp
  moreover from Inl schema_never_empty_issues [of B r] have "issues \<noteq> []" by auto
  ultimately show ?thesis using Inl by simp
next
  case (Inr data)
  with schema_issues [of B r] have "violations B r = []" by simp
  then show ?thesis using Inr by simp
qed

lemma parse_outcome:
  "(violations B (restructure (qs_parse (toQueryString inp))) \<noteq> [] \<longrightarrow>
      parseTracesQueryParams B inp =
        ParseErrorResult (toValidationErrors (violations B (restructure (qs_parse (toQueryString inp)))))) \<and>
   (violations B (restructure (qs_parse (toQueryString inp))) = [] \<longrightarrow>
      (\<exists>data. parseTracesQueryParams B inp = ParseResult data))"
  using schema_outcome [of B "restructure (qs_parse (toQueryString inp))"]
  by (auto simp: parseTracesQueryParams_def validateRestructured_def Let_def)

lemma violation_reported:
  assumes "i \<in> set (violations B (restructure (qs_parse (toQueryString inp))))"
  shows "\<exists>errs. parseTracesQueryParams B inp = ParseErrorResult errs \<and>
           \<lparr>field_path = joinWith ''.'' (fst i), message = snd i\<rparr> \<in> set errs"
proof -
  let ?v = "violations B (restructure (qs_parse (toQueryString inp)))"
  from assms have "?v \<noteq> []" by auto
  then have "parseTracesQueryParams B inp = ParseErrorResult (toValidationErrors ?v)"
    using parse_outcome by blast
  moreover from assms have "\<lparr>field_path = joinWith ''.'' (fst i), message = snd i\<rparr>
      \<in> set (toValidationErrors ?v)"
    by (force simp: toValidationErrors_def)
  ultimately show ?thesis by blast
qed




subsection \<open>Malformed dates and booleans\<close>

lemma map_of_copyDefined:
  "map_of (copyDefined parsed keys) k = (if k \<in> set keys then field parsed k else None)"
proof (induction keys)
  case Nil
  then show ?case by (simp add: copyDefined_def List.map_filter_simps)
next
  case (Cons a keys)
  then show ?case
    by (cases "field parsed a") (auto simp: copyDefined_def List.map_filter_simps)
qed

lemma field_idem: "field parsed k = Some d \<Longrightarrow> d \<noteq> DUndefined"
  by (auto simp: field_def split: option.splits jsdata.splits)

lemma field_copyDefined:
  "field (copyDefined parsed keys) k = (if k \<in> set keys then field parsed k else None)"
proof -
  have "field (copyDefined parsed keys) k
      = (case map_of (copyDefined parsed keys) k of Some DUndefined \<Rightarrow> None | r \<Rightarrow> r)"
    by (simp add: field_def)
  also have "\<dots> = (if k \<in> set keys then field parsed k else None)"
    using field_idem [of parsed k]
    by (auto simp: map_of_copyDefined split: option.splits jsdata.splits)
  finally show ?thesis .
qed

lemma field_append:
  "field (xs @ ys) k = (case map_of xs k of None \<Rightarrow> field ys k | Some d \<Rightarrow> field xs k)"
  by (auto simp: field_def map_add_def split: option.splits)

lemma field_filtersOf:
  "field (filtersOf parsed) k =
     (if k \<in> set SCALAR_FILTER_KEYS \<union>
           {''startedAt'', ''endedAt'', ''tags'', ''metadata'', ''scope'', ''versionInfo''}
      then field parsed k else None)"
proof -
  have disj: "k \<in> set SCALAR_FILTER_KEYS \<Longrightarrow>
      k \<notin> {''startedAt'', ''endedAt'', ''tags'', ''metadata'', ''scope'', ''versionInfo''}"
    by (auto simp: SCALAR_FILTER_KEYS_def)
  show ?thesis
    unfolding filtersOf_def field_append map_of_copyDefined
    using disj field_idem [of parsed k]
    by (auto simp: field_copyDefined split: option.splits)
qed

lemma filtersOf_nonempty:
  assumes "field (filtersOf parsed) k = Some d"
  shows "length (filtersOf parsed) > 0"
  using assms by (cases "filtersOf parsed") (auto simp: field_def)

lemma field_restructure_filters:
  assumes "field (filtersOf parsed) k = Some d"
  shows "field (restructure parsed) ''filters'' = Some (DObj (filtersOf parsed))"
proof -
  have "length (filtersOf parsed) > 0" using assms by (rule filtersOf_nonempty)
  then show ?thesis
    unfolding restructure_def Let_def filtersOf_def [symmetric]
    by (simp add: field_def copyDefined_def List.map_filter_simps split: option.splits)
qed

lemma objectIssues_member:
  assumes "(fld, check) \<in> set shape" and "i \<in> set (check (field kvs fld) (path @ [fld]))"
  shows "i \<in> set (objectIssues shape (Some (DObj kvs)) path)"
  using assms by (force simp: objectIssues_def)

lemma violations_filters_member:
  assumes "i \<in> set (objectIssues (filterShape B) (field r ''filters'') [''filters''])"
  shows "i \<in> set (violations B r)"
  using assms by (simp add: violations_def)

lemma invalid_date_violation:
  assumes range: "field parsed fld = Some (DObj entries)"
    and fld: "fld = ''startedAt'' \<or> fld = ''endedAt''"
    and edge: "edge = ''start'' \<or> edge = ''end''"
    and s: "field entries edge = Some (DStr s)"
    and bad: "newDate B (DStr s) = None"
  shows "([''filters'', fld, edge], InvalidDate) \<in> set (violations B (restructure parsed))"
proof -
  have f: "field (filtersOf parsed) fld = Some (DObj entries)"
    using range fld by (auto simp: field_filtersOf)
  then have r: "field (restructure parsed) ''filters'' = Some (DObj (filtersOf parsed))"
    by (rule field_restructure_filters)
  have leaf: "([''filters'', fld, edge], InvalidDate)
      \<in> set (leafIssues (zCoerceDate B) (field entries edge) ([''filters'', fld] @ [edge]))"
    using s bad by (simp add: leafIssues_def zOptional_def zCoerceDate_def)
  have "(edge, leafIssues (zCoerceDate B)) \<in> set (dateRangeShape B)"
    using edge by (auto simp: dateRangeShape_def)
  then have inner: "([''filters'', fld, edge], InvalidDate)
      \<in> set (objectIssues (dateRangeShape B) (field (filtersOf parsed) fld) ([''filters''] @ [fld]))"
    unfolding f using leaf by (simp add: objectIssues_member)
  have "(fld, objectIssues (dateRangeShape B)) \<in> set (filterShape B)"
    using fld by (auto simp: filterShape_def)
  then have "([''filters'', fld, edge], InvalidDate)
      \<in> set (objectIssues (filterShape B) (Some (DObj (filtersOf parsed))) [''filters''])"
    using inner by (rule objectIssues_member)
  then show ?thesis using r by (simp add: violations_def)
qed

lemma invalid_boolean_violation:
  assumes v: "field parsed ''hasChildError'' = Some (DStr s)"
    and bad: "s \<noteq> ''true''" "s \<noteq> ''false''"
  shows "([''filters'', ''hasChildError''], Expected ''boolean'' ''string'')
           \<in> set (violations B (restructure parsed))"
proof -
  have f: "field (filtersOf parsed) ''hasChildError'' = Some (DStr s)"
    using v by (simp add: field_filtersOf SCALAR_FILTER_KEYS_def)
  then have r: "field (restructure parsed) ''filters'' = Some (DObj (filtersOf parsed))"
    by (rule field_restructure_filters)
  have leaf: "([''filters'', ''hasChildError''], Expected ''boolean'' ''string'')
      \<in> set ((\<lambda>inp. leafIssues zBoolean (map_option hasChildErrorPreprocess inp))
               (field (filtersOf parsed) ''hasChildError'') ([''filters''] @ [''hasChildError'']))"
    using f bad
    by (simp add: leafIssues_def zOptional_def zBoolean_def hasChildErrorPreprocess_def invalidType_def)
  have "(''hasChildError'', \<lambda>inp. leafIssues zBoolean (map_option hasChildErrorPreprocess inp))
      \<in> set (filterShape B)"
    by (simp add: filterShape_def)
  then have "([''filters'', ''hasChildError''], Expected ''boolean'' ''string'')
      \<in> set (objectIssues (filterShape B) (Some (DObj (filtersOf parsed))) [''filters''])"
    using leaf by (rule objectIssues_member)
  then show ?thesis using r by (simp add: violations_def)
qed

lemma legacy_drops_boolean:
  assumes "s \<noteq> ''true''" "s \<noteq> ''false''"
  shows "legacyParseTracesQueryParams B [(''hasChildError'', PStr s)]
           = Some (ParseResult \<lparr>legacy_filters = None, legacy_pagination = None\<rparr>)"
  using assms
  by (simp add: legacyParseTracesQueryParams_def transformQueryParams_def transformEntry_def
      legacyTracesPaginatedArgSchema_def Let_def field_def zOptional_def valueOf_def)

lemma legacy_drops_date:
  assumes "newDate B (DStr s) = None" "s \<noteq> []"
  shows "legacyParseTracesQueryParams B [(''dateRange.start'', PStr s)]
           = Some (ParseResult
               \<lparr>legacy_filters = Some (noLegacyFilter\<lparr>legacy_dateRange :=
                     Some \<lparr>range_start = None, range_end = None\<rparr>\<rparr>),
                legacy_pagination = None\<rparr>)"
  using assms
  by (simp add: legacyParseTracesQueryParams_def transformQueryParams_def transformEntry_def
      legacyTracesPaginatedArgSchema_def legacyTracesFilterSchema_def legacyDateRangeSchema_def
      Let_def field_def zOptional_def valueOf_def noLegacyFilter_def)

text \<open>
  Claim C8, as the two revisions have it. In the current revision, when the parsed
  parameters hold under \<open>startedAt\<close> or \<open>endedAt\<close> an object whose \<open>start\<close> or
  \<open>end\<close> is a string that is not a valid date, the result is an error list with an
  entry for that field (\<open>filters.startedAt.start\<close> and so on); when they hold under
  \<open>hasChildError\<close> a string other than \<open>true\<close> and \<open>false\<close>, the list has an entry
  for \<open>filters.hasChildError\<close>. In the legacy revision the parameter
  \<open>dateRange.start\<close> with an invalid date and the parameter \<open>hasChildError\<close> with
  such a string are left out, and the parse succeeds.
\<close>

theorem malformed_values_rejected:
  "(field (qs_parse (toQueryString inp)) fld = Some (DObj entries) \<and>
    (fld = ''startedAt'' \<or> fld = ''endedAt'') \<and> (edge = ''start'' \<or> edge = ''end'') \<and>
    field entries edge = Some (DStr s) \<and> newDate B (DStr s) = None \<longrightarrow>
      (\<exists>errs. parseTracesQueryParams B inp = ParseErrorResult errs \<and>
         \<lparr>field_path = ''filters.'' @ fld @ ''.'' @ edge, message = InvalidDate\<rparr> \<in> set errs)) \<and>
   (field (qs_parse (toQueryString inp)) ''hasChildError'' = Some (DStr b) \<and>
    b \<noteq> ''true'' \<and> b \<noteq> ''false'' \<longrightarrow>
      (\<exists>errs. parseTracesQueryParams B inp = ParseErrorResult errs \<and>
         \<lparr>field_path = ''filters.hasChildError'', message = Expected ''boolean'' ''string''\<rparr>
           \<in> set errs)) \<and>
   (newDate B (DStr s) = None \<and> s \<noteq> [] \<longrightarrow>
      legacyParseTracesQueryParams B [(''dateRange.start'', PStr s)]
        = Some (ParseResult
            \<lparr>legacy_filters = Some (noLegacyFilter\<lparr>legacy_dateRange :=
                  Some \<lparr>range_start = None, range_end = None\<rparr>\<rparr>),
             legacy_pagination = None\<rparr>)) \<and>
   (b \<noteq> ''true'' \<and> b \<noteq> ''false'' \<longrightarrow>
      legacyParseTracesQueryParams B [(''hasChildError'', PStr b)]
        = Some (ParseResult \<lparr>legacy_filters = None, legacy_pagination = None\<rparr>))"
proof (intro conjI impI)
  assume a: "field (qs_parse (toQueryString inp)) fld = Some (DObj entries) \<and>
    (fld = ''startedAt'' \<or> fld = ''endedAt'') \<and> (edge = ''start'' \<or> edge = ''end'') \<and>
    field entries edge = Some (DStr s) \<and> newDate B (DStr s) = None"
  then have "([''filters'', fld, edge], InvalidDate)
      \<in> set (violations B (restructure (qs_parse (toQueryString inp))))"
    using invalid_date_violation by blast
  from violation_reported [OF this]
  show "\<exists>errs. parseTracesQueryParams B inp = ParseErrorResult errs \<and>
         \<lparr>field_path = ''filters.'' @ fld @ ''.'' @ edge, message = InvalidDate\<rparr> \<in> set errs"
    by simp
next
  assume a: "field (qs_parse (toQueryString inp)) ''hasChildError'' = Some (DStr b) \<and>
    b \<noteq> ''true'' \<and> b \<noteq> ''false''"
  then have "([''filters'', ''hasChildError''], Expected ''boolean'' ''string'')
      \<in> set (violations B (restructure (qs_parse (toQueryString inp))))"
    using invalid_boolean_violation by blast
  from violation_reported [OF this]
  show "\<exists>errs. parseTracesQueryParams B inp = ParseErrorResult errs \<and>
         \<lparr>field_path = ''filters.hasChildError'', message = Expected ''boolean'' ''string''\<rparr>
           \<in> set errs"
    by simp
next
  assume "newDate B (DStr s) = None \<and> s \<noteq> []"
  then show "legacyParseTracesQueryParams B [(''dateRange.start'', PStr s)]
        = Some (ParseResult
            \<lparr>legacy_filters = Some (noLegacyFilter\<lparr>legacy_dateRange :=
                  Some \<lparr>range_start = None, range_end = None\<rparr>\<rparr>),
             legacy_pagination = None\<rparr>)"
    using legacy_drops_date by blast
next
  assume "b \<noteq> ''true'' \<and> b \<noteq> ''false''"
  then show "legacyParseTracesQueryParams B [(''hasChildError'', PStr b)]
        = Some (ParseResult \<lparr>legacy_filters = None, legacy_pagination = None\<rparr>)"
    using legacy_drops_boolean by blast
qed

lemma sample_parsed_malformed:
  "qs_parse (toQueryString (QueryString
      [(''startedAt[start]'', ''garbage''), (''hasChildError'', ''maybe'')]))
   = [(''startedAt'', DObj [(''start'', DStr ''garbage'')]), (''hasChildError'', DStr ''maybe'')]"
  by code_simp

text \<open>
  The query \<open>startedAt[start]=garbage&hasChildError=maybe\<close> in the current revision:
  both fields are named in the error list.
\<close>

theorem malformed_values_rejected_witness:
  "field (qs_parse (toQueryString (QueryString
      [(''startedAt[start]'', ''garbage''), (''hasChildError'', ''maybe'')]))) ''startedAt''
     = Some (DObj [(''start'', DStr ''garbage'')]) \<and>
   field [(''start'', DStr ''garbage'')] ''start'' = Some (DStr ''garbage'') \<and>
   newDate sampleBuiltins (DStr ''garbage'') = None \<and>
   field (qs_parse (toQueryString (QueryString
      [(''startedAt[start]'', ''garbage''), (''hasChildError'', ''maybe'')]))) ''hasChildError''
     = Some (DStr ''maybe'') \<and>
   (\<exists>errs. parseTracesQueryParams sampleBuiltins (QueryString
        [(''startedAt[start]'', ''garbage''), (''hasChildError'', ''maybe'')]) = ParseErrorResult errs \<and>
      \<lparr>field_path = ''filters.startedAt.start'', message = InvalidDate\<rparr> \<in> set errs \<and>
      \<lparr>field_path = ''filters.hasChildError'', message = Expected ''boolean'' ''string''\<rparr>
        \<in> set errs)"
proof -
  let ?inp = "QueryString [(''startedAt[start]'', ''garbage''), (''hasChildError'', ''maybe'')]"
  have h1: "field (qs_parse (toQueryString ?inp)) ''startedAt'' = Some (DObj [(''start'', DStr ''garbage'')])"
    by (simp add: sample_parsed_malformed field_def)
  have h2: "field [(''start'', DStr ''garbage'')] ''start'' = Some (DStr ''garbage'')"
    by (simp add: field_def)
  have h3: "newDate sampleBuiltins (DStr ''garbage'') = None"
    by (simp add: sampleBuiltins_def)
  have h4: "field (qs_parse (toQueryString ?inp)) ''hasChildError'' = Some (DStr ''maybe'')"
    by (simp add: sample_parsed_malformed field_def)
  have h5: "''maybe'' \<noteq> ''true'' \<and> ''maybe'' \<noteq> ''false''" by simp
  from malformed_values_rejected [of ?inp "''startedAt''" "[(''start'', DStr ''garbage'')]"
      "''start''" "''garbage''" sampleBuiltins "''maybe''"] h1 h2 h3 h4 h5
  obtain e1 e2 where
    "parseTracesQueryParams sampleBuiltins ?inp = ParseErrorResult e1"
    "\<lparr>field_path = ''filters.startedAt.start'', message = InvalidDate\<rparr> \<in> set e1"
    "parseTracesQueryParams sampleBuiltins ?inp = ParseErrorResult e2"
    "\<lparr>field_path = ''filters.hasChildError'', message = Expected ''boolean'' ''string''\<rparr> \<in> set e2"
    by auto
  then show ?thesis using h1 h2 h3 h4 by auto
qed

text \<open>
  Claim C8 as stated covers the legacy parameters too. There the parameter
  \<open>dateRange.start=garbage\<close>, not a valid date, gives a successful parse with an
  empty date range, and \<open>hasChildError=maybe\<close> gives a successful parse with no
  filter at all: no validation error names either field.
\<close>

theorem legacy_drops_malformed_counterexample:
  "newDate sampleBuiltins (DStr ''garbage'') = None \<and>
   legacyParseTracesQueryParams sampleBuiltins [(''dateRange.start'', PStr ''garbage'')]
     = Some (ParseResult
         \<lparr>legacy_filters = Some (noLegacyFilter\<lparr>legacy_dateRange :=
               Some \<lparr>range_start = None, range_end = None\<rparr>\<rparr>),
          legacy_pagination = None\<rparr>) \<and>
   legacyParseTracesQueryParams sampleBuiltins [(''hasChildError'', PStr ''maybe'')]
     = Some (ParseResult \<lparr>legacy_filters = None, legacy_pagination = None\<rparr>)"
  by (simp add: legacy_drops_date legacy_drops_boolean sampleBuiltins_def)

subsection \<open>Round trip through the query string\<close>







lemma cleanRoot_bracketed [simp]: "cleanRoot (CHR ''['' # s @ '']'') = s"
  by (simp add: cleanRoot_def butlast_append)

lemma bracketed_neq [simp]: "CHR ''['' # s @ '']'' \<noteq> s"
proof
  assume "CHR ''['' # s @ '']'' = s"
  then have "length (CHR ''['' # s @ '']'') = length s" by simp
  then show False by simp
qed









lemma mergeParams_Nil [simp]: "mergeParams [] obj = obj"
  by (simp add: mergeParams_def)

lemma mergeParams_Cons [simp]:
  "mergeParams ((key, val) # ps) obj = mergeParams ps (merge obj (parseKeys key val))"
  by (simp add: mergeParams_def)

lemma mergeParams_append [simp]:
  "mergeParams (ps @ qs) obj = mergeParams qs (mergeParams ps obj)"
  by (simp add: mergeParams_def)

















lemma tempOf_append [simp]: "tempOf (xs @ ys) = tempOf xs @ tempOf ys"
  by (simp add: tempOf_def)










lemma bracket_key_inj:
  "k @ CHR ''['' # s @ '']'' = k @ CHR ''['' # t @ '']'' \<longleftrightarrow> s = t"
  by simp

































































lemma copyDefined_single:
  "copyDefined parsed [k] = (case field parsed k of None \<Rightarrow> [] | Some d \<Rightarrow> [(k, d)])"
  by (simp add: copyDefined_def List.map_filter_simps split: option.splits)













end
